theory Spec2Isabelle
  imports Main
begin

section \<open>The extension service of package \<open>extension\<close>\<close>

text \<open>
  The repository holds two versions of \<^verbatim>\<open>backend.go\<close>: the one under
  \<^verbatim>\<open>src/extension\<close>, whose completion watcher checks the error of every call
  (the defensive variant), and \<^verbatim>\<open>src/unnamed/part_000\<close>, whose completion
  watcher discards most of them (the plain variant, suffix \<open>_plain\<close> below).

  The three watchers are goroutines that share \<^verbatim>\<open>service.currentContracts\<close>
  and touch it only between \<^verbatim>\<open>service.mu.Lock()\<close> and
  \<^verbatim>\<open>service.mu.Unlock()\<close>. The body run for one received log is modelled
  as a function from the registry to the new registry and the list of actions the body
  performs, in program order.

  Go returns \<^verbatim>\<open>(value, err)\<close>. Where the value is a plain value (an address, a
  byte slice, a string, a bool) a call is a pair of the value and an optional error, so
  that code which discards the error and goes on with the value does the same here.
  Where the value is a pointer (a transaction, a contract binding, transaction
  options) a call returns either an error, and then the pointer is \<^verbatim>\<open>nil\<close>, or
  the object. A method call on a \<^verbatim>\<open>nil\<close> pointer panics; no watcher recovers, so a
  panic ends the process: the list of actions ends with \<open>Panic\<close> and nothing is handled
  after it.
\<close>

subsection \<open>Data\<close>

type_synonym address = nat      \<comment> \<open>\<^verbatim>\<open>common.Address\<close>, an opaque identifier\<close>
type_synonym hash = nat         \<comment> \<open>\<^verbatim>\<open>common.Hash\<close>\<close>
type_synonym bytes = string     \<comment> \<open>\<^verbatim>\<open>[]byte\<close>; a Go string is a byte sequence too\<close>
type_synonym err = "string option"  \<comment> \<open>\<^verbatim>\<open>error\<close>; \<open>None\<close> is \<^verbatim>\<open>nil\<close>\<close>
type_synonym transaction = nat  \<comment> \<open>what a non-nil \<^verbatim>\<open>*types.Transaction\<close> points to\<close>
type_synonym caller = nat       \<comment> \<open>a non-nil read binding of the management contract\<close>
type_synonym transactor = nat   \<comment> \<open>a non-nil write binding of the management contract\<close>
type_synonym txopts = nat       \<comment> \<open>what a non-nil \<^verbatim>\<open>*bind.TransactOpts\<close> points to\<close>
type_synonym payload_hash = string  \<comment> \<open>\<^verbatim>\<open>common.EncryptedPayloadHash\<close>\<close>

record ExtensionContract =
  Address :: address
  Initiator :: address
  ManagementContractAddress :: address
  CreationData :: bytes

text \<open>The fields of \<^verbatim>\<open>types.Log\<close> that the watchers read.\<close>

record Log =
  LogAddress :: address
  TxHash :: hash
  Data :: bytes
  BlockHash :: hash
  BlockNumber :: nat

record NewExtensionCreated =
  ToExtend :: address

record SendTxArgs =
  From :: address
  PrivateFor :: "string list"

type_synonym registry = "address \<rightharpoonup> ExtensionContract"

subsection \<open>Collaborators\<close>

text \<open>
  Everything the service calls and does not define itself: the ledger client, the
  signer, the event decoder, the persistence handler, the private transaction manager,
  the management contract facade and its bindings, the account manager, the state
  fetcher, the extension API, and the pure library conversions. Their code is not part
  of the two files; their answers are parameters. A collaborator only answers: it does
  not write to \<^verbatim>\<open>service.currentContracts\<close> (the extension API is handed the
  service, and is taken not to).

  \<^verbatim>\<open>TransactionByHash\<close>, \<^verbatim>\<open>Caller\<close>, \<^verbatim>\<open>GenerateTransactOptions\<close> and
  \<^verbatim>\<open>Transactor\<close> return pointers: \<open>Inl\<close> is the error of a failed call, whose
  pointer is \<^verbatim>\<open>nil\<close>, and \<open>Inr\<close> the object of a call that succeeded. The methods
  \<^verbatim>\<open>Sender\<close>, \<^verbatim>\<open>tx.Data()\<close>, \<^verbatim>\<open>Creator\<close>,
  \<^verbatim>\<open>TargetRecipientPublicKeyHash\<close>, \<^verbatim>\<open>ContractToExtend\<close> and
  \<^verbatim>\<open>SetSharedStateHash\<close> are given on objects; on \<^verbatim>\<open>nil\<close> they panic. The
  decoded event and the transaction that \<^verbatim>\<open>SetSharedStateHash\<close> returns are read
  only after their error was found \<^verbatim>\<open>nil\<close>.
\<close>

record Env =
  TransactionByHash :: "hash \<Rightarrow> string + transaction"
  Sender :: "transaction \<Rightarrow> address \<times> err"
  TxData :: "transaction \<Rightarrow> bytes"
  UnpackNewExtensionCreatedLog :: "bytes \<Rightarrow> NewExtensionCreated \<times> err"
  Save :: "registry \<Rightarrow> err"
  BytesToEncryptedPayloadHash :: "bytes \<Rightarrow> payload_hash"
  IsSender :: "payload_hash \<Rightarrow> bool \<times> err"
  GetParticipants :: "payload_hash \<Rightarrow> string list \<times> err"
  Caller :: "address \<Rightarrow> string + caller"
  Creator :: "caller \<Rightarrow> address \<times> err"
  ApproveContractExtension :: "address \<Rightarrow> bool \<Rightarrow> SendTxArgs \<Rightarrow> string \<times> err"
  VoteOnContract :: "address \<Rightarrow> bool \<Rightarrow> SendTxArgs \<Rightarrow> string \<times> err"
  Exists :: "address \<Rightarrow> bool"
  GenerateTransactOptions :: "SendTxArgs \<Rightarrow> string + txopts"
  TargetRecipientPublicKeyHash :: "caller \<Rightarrow> string \<times> err"
  DecodeString :: "string \<Rightarrow> bytes \<times> err"
  Receive :: "bytes \<Rightarrow> bytes \<times> err"
  ContractToExtend :: "caller \<Rightarrow> address \<times> err"
  GetAddressStateFromBlock :: "hash \<Rightarrow> address \<Rightarrow> bytes \<times> err"
  Send :: "bytes \<Rightarrow> string \<Rightarrow> string list \<Rightarrow> bytes \<times> err"
  EncodeToString :: "bytes \<Rightarrow> string"
  Transactor :: "address \<Rightarrow> string + transactor"
  SetSharedStateHash :: "transactor \<Rightarrow> txopts \<Rightarrow> string \<Rightarrow> transaction \<times> err"

text \<open>
  The pointer that code keeps when it assigns the error of such a call to \<^verbatim>\<open>_\<close>:
  \<open>None\<close> is \<^verbatim>\<open>nil\<close>.
\<close>

definition ptr :: "string + 'a \<Rightarrow> 'a option" where
  "ptr r = (case r of Inl e \<Rightarrow> None | Inr v \<Rightarrow> Some v)"

subsection \<open>Actions\<close>

text \<open>
  A call on a collaborator, with its arguments. The pure conversions
  (\<^verbatim>\<open>tx.Data()\<close>, the event decoder, base64, the payload hash) are not calls.
\<close>

datatype call =
    ExtClient_TransactionByHash hash
  | Signer_Sender transaction
  | DataHandler_Save registry
  | PTM_IsSender payload_hash
  | PTM_GetParticipants payload_hash
  | PTM_Receive bytes
  | PTM_Send bytes string "string list"
  | Facade_Caller address
  | Facade_Transactor address
  | Caller_Creator caller
  | Caller_TargetRecipientPublicKeyHash caller
  | Caller_ContractToExtend caller
  | Transactor_SetSharedStateHash transactor txopts string
  | AccountManager_Exists address
  | AccountManager_GenerateTransactOptions SendTxArgs
  | StateFetcher_GetAddressStateFromBlock hash address
  | API_ApproveContractExtension address bool SendTxArgs
  | API_VoteOnContract address bool SendTxArgs

datatype level = Debug | Warn | Error

text \<open>
  What a watcher does, in program order: taking and releasing \<^verbatim>\<open>service.mu\<close>,
  writing to and deleting from \<^verbatim>\<open>service.currentContracts\<close>, logging (level and
  message; the key/value context is left out), calling a collaborator, the deferred
  \<^verbatim>\<open>stopSubscription.Unsubscribe()\<close>, and the panic of a \<^verbatim>\<open>nil\<close> dereference.
\<close>

datatype action =
    Lock
  | Unlock
  | MapStore address ExtensionContract
  | MapDelete address
  | LogMsg level string
  | Ext call
  | Unsubscribe
  | Panic

subsection \<open>\<^verbatim>\<open>watchForNewContracts\<close>: the body of \<^verbatim>\<open>case foundLog := <-incomingLogs\<close>\<close>

text \<open>
  The error of \<^verbatim>\<open>TransactionByHash\<close> is assigned to \<^verbatim>\<open>_\<close> and the transaction
  is handed to \<^verbatim>\<open>Sender\<close>, which reads it: a \<^verbatim>\<open>nil\<close> transaction panics there,
  with the mutex held and before the payload is decoded. Likewise the error of
  \<^verbatim>\<open>Caller\<close> is dropped before \<^verbatim>\<open>caller.Creator(nil)\<close>.
\<close>

definition watchForNewContracts_log :: "Env \<Rightarrow> Log \<Rightarrow> registry \<Rightarrow> registry \<times> action list" where
  "watchForNewContracts_log env foundLog currentContracts =
    (let t = [Lock];
         tx = ptr (TransactionByHash env (TxHash foundLog));
         t = t @ [Ext (ExtClient_TransactionByHash (TxHash foundLog))]
     in case tx of
          None \<Rightarrow> (currentContracts, t @ [Panic])
        | Some tx \<Rightarrow>
    (let (from', _) = Sender env tx;
         t = t @ [Ext (Signer_Sender tx)];
         (newExtensionEvent, err) = UnpackNewExtensionCreatedLog env (Data foundLog)
     in if err \<noteq> None then
          (currentContracts,
           t @ [LogMsg Error ''Error unpacking extension creation log'',
                LogMsg Debug ''Errored log'', Unlock])
        else
          let newContractExtension =
                \<lparr>Address = ToExtend newExtensionEvent,
                 Initiator = from',
                 ManagementContractAddress = LogAddress foundLog,
                 CreationData = TxData env tx\<rparr>;
              currentContracts = currentContracts(LogAddress foundLog \<mapsto> newContractExtension);
              t = t @ [MapStore (LogAddress foundLog) newContractExtension];
              err = Save env currentContracts;
              t = t @ [Ext (DataHandler_Save currentContracts)]
          in if err \<noteq> None then
               (currentContracts,
                t @ [LogMsg Error ''Error writing extension data to file'', Unlock])
             else
               let t = t @ [Unlock];
                   data = BytesToEncryptedPayloadHash env (CreationData newContractExtension);
                   (isSender, _) = IsSender env data;
                   t = t @ [Ext (PTM_IsSender data)]
               in if isSender then
                    let (fetchedParties, err) = GetParticipants env data;
                        t = t @ [Ext (PTM_GetParticipants data)]
                    in if err \<noteq> None then
                         (currentContracts,
                          t @ [LogMsg Error
                                 ''Extension: unable to fetch all parties for extension management contract''])
                       else
                         let caller =
                               ptr (Caller env (ManagementContractAddress newContractExtension));
                             t = t @ [Ext (Facade_Caller
                                             (ManagementContractAddress newContractExtension))]
                         in case caller of
                              None \<Rightarrow> (currentContracts, t @ [Panic])
                            | Some caller \<Rightarrow>
                         (let (contractCreator, _) = Creator env caller;
                              t = t @ [Ext (Caller_Creator caller)];
                              txArgs = \<lparr>From = contractCreator, PrivateFor = fetchedParties\<rparr>;
                              (_, err) =
                                ApproveContractExtension env
                                  (ManagementContractAddress newContractExtension) True txArgs;
                              t = t @ [Ext (API_ApproveContractExtension
                                              (ManagementContractAddress newContractExtension)
                                              True txArgs)]
                          in if err \<noteq> None then
                               (currentContracts,
                                t @ [LogMsg Error
                                       ''Extension: initiator vote on management contract failed''])
                             else (currentContracts, t))
                  else (currentContracts, t)))"

text \<open>The plain variant differs in its log messages and in the name of the vote.\<close>

definition watchForNewContracts_log_plain :: "Env \<Rightarrow> Log \<Rightarrow> registry \<Rightarrow> registry \<times> action list" where
  "watchForNewContracts_log_plain env foundLog currentContracts =
    (let t = [Lock];
         tx = ptr (TransactionByHash env (TxHash foundLog));
         t = t @ [Ext (ExtClient_TransactionByHash (TxHash foundLog))]
     in case tx of
          None \<Rightarrow> (currentContracts, t @ [Panic])
        | Some tx \<Rightarrow>
    (let (from', _) = Sender env tx;
         t = t @ [Ext (Signer_Sender tx)];
         (newExtensionEvent, err) = UnpackNewExtensionCreatedLog env (Data foundLog)
     in if err \<noteq> None then
          (currentContracts,
           t @ [LogMsg Error ''Error unpacking extension creation log'',
                LogMsg Debug ''Errored log'', Unlock])
        else
          let newContractExtension =
                \<lparr>Address = ToExtend newExtensionEvent,
                 Initiator = from',
                 ManagementContractAddress = LogAddress foundLog,
                 CreationData = TxData env tx\<rparr>;
              currentContracts = currentContracts(LogAddress foundLog \<mapsto> newContractExtension);
              t = t @ [MapStore (LogAddress foundLog) newContractExtension];
              err = Save env currentContracts;
              t = t @ [Ext (DataHandler_Save currentContracts)]
          in if err \<noteq> None then
               (currentContracts,
                t @ [LogMsg Error ''Error writing extension data to file'', Unlock])
             else
               let t = t @ [Unlock];
                   data = BytesToEncryptedPayloadHash env (CreationData newContractExtension);
                   (isSender, _) = IsSender env data;
                   t = t @ [Ext (PTM_IsSender data)]
               in if isSender then
                    let (fetchedParties, err) = GetParticipants env data;
                        t = t @ [Ext (PTM_GetParticipants data)]
                    in if err \<noteq> None then
                         (currentContracts, t @ [LogMsg Error ''Extension''])
                       else
                         let caller =
                               ptr (Caller env (ManagementContractAddress newContractExtension));
                             t = t @ [Ext (Facade_Caller
                                             (ManagementContractAddress newContractExtension))]
                         in case caller of
                              None \<Rightarrow> (currentContracts, t @ [Panic])
                            | Some caller \<Rightarrow>
                         (let (contractCreator, _) = Creator env caller;
                              t = t @ [Ext (Caller_Creator caller)];
                              txArgs = \<lparr>From = contractCreator, PrivateFor = fetchedParties\<rparr>;
                              (_, err) =
                                VoteOnContract env
                                  (ManagementContractAddress newContractExtension) True txArgs;
                              t = t @ [Ext (API_VoteOnContract
                                              (ManagementContractAddress newContractExtension)
                                              True txArgs)]
                          in if err \<noteq> None then
                               (currentContracts, t @ [LogMsg Error ''Extension''])
                             else (currentContracts, t))
                  else (currentContracts, t)))"

subsection \<open>\<^verbatim>\<open>watchForCancelledContracts\<close>: the body of \<^verbatim>\<open>case l := <-incomingLogs\<close>\<close>

definition watchForCancelledContracts_log :: "Env \<Rightarrow> Log \<Rightarrow> registry \<Rightarrow> registry \<times> action list" where
  "watchForCancelledContracts_log env l currentContracts =
    (let t = [Lock] in
     case currentContracts (LogAddress l) of
       Some _ \<Rightarrow>
         let currentContracts = currentContracts(LogAddress l := None);
             t = t @ [MapDelete (LogAddress l)];
             err = Save env currentContracts;
             t = t @ [Ext (DataHandler_Save currentContracts)]
         in if err \<noteq> None then
              (currentContracts,
               t @ [LogMsg Error ''Faile to store list of contracts being extended'', Unlock])
            else (currentContracts, t @ [Unlock])
     | None \<Rightarrow> (currentContracts, t @ [Unlock]))"

text \<open>The plain variant calls \<^verbatim>\<open>Save\<close> and drops its result.\<close>

definition watchForCancelledContracts_log_plain :: "Env \<Rightarrow> Log \<Rightarrow> registry \<Rightarrow> registry \<times> action list" where
  "watchForCancelledContracts_log_plain env l currentContracts =
    (let t = [Lock] in
     case currentContracts (LogAddress l) of
       Some _ \<Rightarrow>
         let currentContracts = currentContracts(LogAddress l := None);
             t = t @ [MapDelete (LogAddress l)];
             t = t @ [Ext (DataHandler_Save currentContracts)]
         in (currentContracts, t @ [Unlock])
     | None \<Rightarrow> (currentContracts, t @ [Unlock]))"

subsection \<open>\<^verbatim>\<open>watchForCompletionEvents\<close>: the body of \<^verbatim>\<open>case l := <-incomingLogs\<close>\<close>

text \<open>
  The defensive variant runs the state share inside a closure whose deferred function
  releases the lock: every \<^verbatim>\<open>return\<close> ends with \<open>Unlock\<close>. It reads a pointer
  only after \<^verbatim>\<open>if err != nil { ...; return }\<close>: the case on the call's answer.
\<close>

definition watchForCompletionEvents_log :: "Env \<Rightarrow> Log \<Rightarrow> registry \<Rightarrow> registry \<times> action list" where
  "watchForCompletionEvents_log env l currentContracts =
    (let t = [LogMsg Debug ''[SOS] Receieved a completion event'', Lock] in
     case currentContracts (LogAddress l) of
       None \<Rightarrow>
         (currentContracts,
          t @ [LogMsg Debug ''[SOS] this node doesn't participate in the contract extender'',
               Unlock])
     | Some extensionEntry \<Rightarrow>
        (let t = t @ [Ext (Facade_Caller (LogAddress l))]
         in case Caller env (LogAddress l) of
              Inl err \<Rightarrow>
                (currentContracts,
                 t @ [LogMsg Error ''service.managementContractFacade.Caller'', Unlock])
            | Inr caller \<Rightarrow>
        (let (contractCreator, err) = Creator env caller;
             t = t @ [Ext (Caller_Creator caller)]
         in if err \<noteq> None then
              (currentContracts, t @ [LogMsg Error ''[contract] caller.Creator'', Unlock])
         else
        (let t = t @ [LogMsg Debug
                        ''[SOS] check if this node has the account that created the contract extender'',
                      Ext (AccountManager_Exists contractCreator)]
         in if \<not> Exists env contractCreator then
              (currentContracts,
               t @ [LogMsg Warn ''Account used to sign extension contract no longer available'',
                    Unlock])
         else
        (let payload = BytesToEncryptedPayloadHash env (CreationData extensionEntry);
             (fetchedParties, err) = GetParticipants env payload;
             t = t @ [Ext (PTM_GetParticipants payload)]
         in if err \<noteq> None then
              (currentContracts,
               t @ [LogMsg Error
                      ''Extension: Unable to fetch all parties for extension management contract'',
                    Unlock])
         else
        (let t = t @ [LogMsg Debug ''[SOS] able to fetch all parties''];
             args = \<lparr>From = contractCreator, PrivateFor = fetchedParties\<rparr>;
             t = t @ [Ext (AccountManager_GenerateTransactOptions args)]
         in case GenerateTransactOptions env args of
              Inl err \<Rightarrow>
                (currentContracts,
                 t @ [LogMsg Error ''service.accountManager.GenerateTransactOptions'', Unlock])
            | Inr txArgs \<Rightarrow>
        (let (recipientHash, err) = TargetRecipientPublicKeyHash env caller;
             t = t @ [Ext (Caller_TargetRecipientPublicKeyHash caller)]
         in if err \<noteq> None then
              (currentContracts,
               t @ [LogMsg Error ''[contract] caller.TargetRecipientPublicKeyHash'', Unlock])
         else
        (let (decoded, err) = DecodeString env recipientHash
         in if err \<noteq> None then
              (currentContracts,
               t @ [LogMsg Error ''base64.StdEncoding.DecodeString'', Unlock])
         else
        (let (recipient, err) = Receive env decoded;
             t = t @ [Ext (PTM_Receive decoded)]
         in if err \<noteq> None then
              (currentContracts, t @ [LogMsg Error ''[ptm] service.ptm.Receive'', Unlock])
         else
        (let t = t @ [LogMsg Debug ''[SOS] able to retrieve the public key of the new party''];
             (contractToExtend, err) = ContractToExtend env caller;
             t = t @ [Ext (Caller_ContractToExtend caller)]
         in if err \<noteq> None then
              (currentContracts, t @ [LogMsg Error ''[contract] caller.ContractToExtend'', Unlock])
         else
        (let t = t @ [LogMsg Debug ''[SOS] dump current state''];
             (entireStateData, err) =
               GetAddressStateFromBlock env (BlockHash l) contractToExtend;
             t = t @ [Ext (StateFetcher_GetAddressStateFromBlock (BlockHash l) contractToExtend)]
         in if err \<noteq> None then
              (currentContracts,
               t @ [LogMsg Error ''[state] service.stateFetcher.GetAddressStateFromBlock'',
                    Unlock])
         else
        (let t = t @ [LogMsg Debug ''[SOS] send the state dump to the new recipient''];
             (hashOfStateData, err) = Send env entireStateData [] [recipient];
             t = t @ [Ext (PTM_Send entireStateData [] [recipient])]
         in if err \<noteq> None then
              (currentContracts, t @ [LogMsg Error ''[ptm] service.ptm.Send'', Unlock])
         else
        (let hashofStateDataBase64 = EncodeToString env hashOfStateData;
             t = t @ [Ext (Facade_Transactor (LogAddress l))]
         in case Transactor env (LogAddress l) of
              Inl err \<Rightarrow>
                (currentContracts,
                 t @ [LogMsg Error ''service.managementContractFacade.Transactor'', Unlock])
            | Inr transactor \<Rightarrow>
        (let t = t @ [LogMsg Debug ''[SOS] store the encrypted payload hash of dump state''];
             (tx, err) = SetSharedStateHash env transactor txArgs hashofStateDataBase64;
             t = t @ [Ext (Transactor_SetSharedStateHash transactor txArgs hashofStateDataBase64)]
         in if err \<noteq> None then
              (currentContracts,
               t @ [LogMsg Error ''[contract] transactor.SetSharedStateHash'', Unlock])
            else
              (currentContracts,
               t @ [LogMsg Debug ''[SOS] transaction carrying shared state'',
                    Unlock])))))))))))))))"

text \<open>
  The plain variant checks the account and the participant list only; every other
  error is assigned to \<^verbatim>\<open>_\<close> and the value is used. So it calls
  \<^verbatim>\<open>caller.Creator(nil)\<close> on the \<^verbatim>\<open>nil\<close> binding of a failed \<^verbatim>\<open>Caller\<close>, and
  \<^verbatim>\<open>transactor.SetSharedStateHash(txArgs, ...)\<close> on the \<^verbatim>\<open>nil\<close> binding of a
  failed \<^verbatim>\<open>Transactor\<close> or with the \<^verbatim>\<open>nil\<close> options of a failed
  \<^verbatim>\<open>GenerateTransactOptions\<close>: each panics before anything is sent, with the mutex
  held.
\<close>

definition watchForCompletionEvents_log_plain :: "Env \<Rightarrow> Log \<Rightarrow> registry \<Rightarrow> registry \<times> action list" where
  "watchForCompletionEvents_log_plain env l currentContracts =
    (let t = [Lock] in
     case currentContracts (LogAddress l) of
       None \<Rightarrow> (currentContracts, t @ [Unlock])
     | Some extensionEntry \<Rightarrow>
        (let caller = ptr (Caller env (LogAddress l));
             t = t @ [Ext (Facade_Caller (LogAddress l))]
         in case caller of
              None \<Rightarrow> (currentContracts, t @ [Panic])
            | Some caller \<Rightarrow>
        (let (contractCreator, _) = Creator env caller;
             t = t @ [Ext (Caller_Creator caller)];
             t = t @ [Ext (AccountManager_Exists contractCreator)]
         in if \<not> Exists env contractCreator then
              (currentContracts,
               t @ [LogMsg Warn ''Account used to sign extension contract no longer available'',
                    Unlock])
         else
        (let payload = BytesToEncryptedPayloadHash env (CreationData extensionEntry);
             (fetchedParties, err) = GetParticipants env payload;
             t = t @ [Ext (PTM_GetParticipants payload)]
         in if err \<noteq> None then
              (currentContracts, t @ [LogMsg Error ''Extension'', Unlock])
         else
        (let args = \<lparr>From = contractCreator, PrivateFor = fetchedParties\<rparr>;
             txArgs = ptr (GenerateTransactOptions env args);
             t = t @ [Ext (AccountManager_GenerateTransactOptions args)];
             (recipientHash, _) = TargetRecipientPublicKeyHash env caller;
             t = t @ [Ext (Caller_TargetRecipientPublicKeyHash caller)];
             (decoded, _) = DecodeString env recipientHash;
             (recipient, _) = Receive env decoded;
             t = t @ [Ext (PTM_Receive decoded)];
             (contractToExtend, _) = ContractToExtend env caller;
             t = t @ [Ext (Caller_ContractToExtend caller)];
             (entireStateData, _) =
               GetAddressStateFromBlock env (BlockHash l) contractToExtend;
             t = t @ [Ext (StateFetcher_GetAddressStateFromBlock (BlockHash l) contractToExtend)];
             (hashOfStateData, _) = Send env entireStateData [] [recipient];
             t = t @ [Ext (PTM_Send entireStateData [] [recipient])];
             hashofStateDataBase64 = EncodeToString env hashOfStateData;
             transactor = ptr (Transactor env (LogAddress l));
             t = t @ [Ext (Facade_Transactor (LogAddress l))]
         in case transactor of
              None \<Rightarrow> (currentContracts, t @ [Panic])
            | Some transactor \<Rightarrow>
               (case txArgs of
                  None \<Rightarrow> (currentContracts, t @ [Panic])
                | Some txArgs \<Rightarrow>
                    (currentContracts,
                     t @ [Ext (Transactor_SetSharedStateHash transactor txArgs
                                 hashofStateDataBase64),
                          Unlock])))))))"

subsection \<open>The watcher loops\<close>

text \<open>
  What one \<^verbatim>\<open>select\<close> of a watcher's \<^verbatim>\<open>for\<close> loop receives: an error of the
  log subscription, a log, or the stop event. A watcher is run on the list of what its
  successive selects receive, each with the collaborators' answers at that moment. A
  panic in the body runs the deferred \<^verbatim>\<open>Unsubscribe\<close> and ends the goroutine, and
  the process with it.
\<close>

datatype selected = SubscriptionErr | IncomingLog Log | StopEvent

text \<open>A list of actions that holds a panic.\<close>

fun panicked :: "action list \<Rightarrow> bool" where
  "panicked [] = False"
| "panicked (Panic # t) = True"
| "panicked (a # t) = panicked t"

text \<open>
  In \<^verbatim>\<open>watchForNewContracts\<close> the subscription error ends in \<^verbatim>\<open>break\<close>,
  which leaves the \<^verbatim>\<open>select\<close> and not the loop.
\<close>

fun watchForNewContracts :: "(Env \<times> selected) list \<Rightarrow> registry \<Rightarrow> registry \<times> action list" where
  "watchForNewContracts [] currentContracts = (currentContracts, [])"
| "watchForNewContracts ((env, SubscriptionErr) # rest) currentContracts =
     (let (cc, t) = watchForNewContracts rest currentContracts
      in (cc, LogMsg Error ''Contract extension watcher subscription error'' # t))"
| "watchForNewContracts ((env, IncomingLog foundLog) # rest) currentContracts =
     (let (cc1, t1) = watchForNewContracts_log env foundLog currentContracts
      in if panicked t1 then (cc1, t1 @ [Unsubscribe])
         else let (cc2, t2) = watchForNewContracts rest cc1 in (cc2, t1 @ t2))"
| "watchForNewContracts ((env, StopEvent) # rest) currentContracts =
     (currentContracts, [Unsubscribe])"

fun watchForNewContracts_plain :: "(Env \<times> selected) list \<Rightarrow> registry \<Rightarrow> registry \<times> action list" where
  "watchForNewContracts_plain [] currentContracts = (currentContracts, [])"
| "watchForNewContracts_plain ((env, SubscriptionErr) # rest) currentContracts =
     (let (cc, t) = watchForNewContracts_plain rest currentContracts
      in (cc, LogMsg Error ''Contract extension watcher subscription error'' # t))"
| "watchForNewContracts_plain ((env, IncomingLog foundLog) # rest) currentContracts =
     (let (cc1, t1) = watchForNewContracts_log_plain env foundLog currentContracts
      in if panicked t1 then (cc1, t1 @ [Unsubscribe])
         else let (cc2, t2) = watchForNewContracts_plain rest cc1 in (cc2, t1 @ t2))"
| "watchForNewContracts_plain ((env, StopEvent) # rest) currentContracts =
     (currentContracts, [Unsubscribe])"

text \<open>In \<^verbatim>\<open>watchForCancelledContracts\<close> the subscription error returns.\<close>

fun watchForCancelledContracts :: "(Env \<times> selected) list \<Rightarrow> registry \<Rightarrow> registry \<times> action list" where
  "watchForCancelledContracts [] currentContracts = (currentContracts, [])"
| "watchForCancelledContracts ((env, SubscriptionErr) # rest) currentContracts =
     (currentContracts,
      [LogMsg Error ''Contract cancellation extension watcher subscription error'',
       Unsubscribe])"
| "watchForCancelledContracts ((env, IncomingLog l) # rest) currentContracts =
     (let (cc1, t1) = watchForCancelledContracts_log env l currentContracts;
          (cc2, t2) = watchForCancelledContracts rest cc1
      in (cc2, t1 @ t2))"
| "watchForCancelledContracts ((env, StopEvent) # rest) currentContracts =
     (currentContracts, [Unsubscribe])"

fun watchForCancelledContracts_plain :: "(Env \<times> selected) list \<Rightarrow> registry \<Rightarrow> registry \<times> action list" where
  "watchForCancelledContracts_plain [] currentContracts = (currentContracts, [])"
| "watchForCancelledContracts_plain ((env, SubscriptionErr) # rest) currentContracts =
     (currentContracts,
      [LogMsg Error ''Contract cancellation extension watcher subscription error'',
       Unsubscribe])"
| "watchForCancelledContracts_plain ((env, IncomingLog l) # rest) currentContracts =
     (let (cc1, t1) = watchForCancelledContracts_log_plain env l currentContracts;
          (cc2, t2) = watchForCancelledContracts_plain rest cc1
      in (cc2, t1 @ t2))"
| "watchForCancelledContracts_plain ((env, StopEvent) # rest) currentContracts =
     (currentContracts, [Unsubscribe])"

text \<open>
  \<^verbatim>\<open>watchForCompletionEvents\<close> drops the subscription
  (\<^verbatim>\<open>incomingLogs, _, err := ...\<close>): its \<^verbatim>\<open>select\<close> has no case for a
  subscription error, which therefore is never received.
\<close>

fun watchForCompletionEvents :: "(Env \<times> selected) list \<Rightarrow> registry \<Rightarrow> registry \<times> action list" where
  "watchForCompletionEvents [] currentContracts = (currentContracts, [])"
| "watchForCompletionEvents ((env, SubscriptionErr) # rest) currentContracts =
     watchForCompletionEvents rest currentContracts"
| "watchForCompletionEvents ((env, IncomingLog l) # rest) currentContracts =
     (let (cc1, t1) = watchForCompletionEvents_log env l currentContracts
      in if panicked t1 then (cc1, t1 @ [Unsubscribe])
         else let (cc2, t2) = watchForCompletionEvents rest cc1 in (cc2, t1 @ t2))"
| "watchForCompletionEvents ((env, StopEvent) # rest) currentContracts =
     (currentContracts, [Unsubscribe])"

fun watchForCompletionEvents_plain :: "(Env \<times> selected) list \<Rightarrow> registry \<Rightarrow> registry \<times> action list" where
  "watchForCompletionEvents_plain [] currentContracts = (currentContracts, [])"
| "watchForCompletionEvents_plain ((env, SubscriptionErr) # rest) currentContracts =
     watchForCompletionEvents_plain rest currentContracts"
| "watchForCompletionEvents_plain ((env, IncomingLog l) # rest) currentContracts =
     (let (cc1, t1) = watchForCompletionEvents_log_plain env l currentContracts
      in if panicked t1 then (cc1, t1 @ [Unsubscribe])
         else let (cc2, t2) = watchForCompletionEvents_plain rest cc1 in (cc2, t1 @ t2))"
| "watchForCompletionEvents_plain ((env, StopEvent) # rest) currentContracts =
     (currentContracts, [Unsubscribe])"

subsection \<open>The three watchers together\<close>

text \<open>
  Each watcher reads and writes the registry only while it holds \<^verbatim>\<open>service.mu\<close>,
  and in one stretch per log, so the registry after any run of the three goroutines is
  the registry after handling the logs one by one in the order in which the watchers
  took the lock. A log is tagged with the watcher that received it (the query its
  subscription was opened with). A panic in any watcher ends the process: the logs
  after it are not handled.
\<close>

datatype event =
    NewExtension Log
  | FinishedExtension Log
  | CanPerformStateShare Log

fun handle :: "Env \<Rightarrow> event \<Rightarrow> registry \<Rightarrow> registry \<times> action list" where
  "handle env (NewExtension l) cc = watchForNewContracts_log env l cc"
| "handle env (FinishedExtension l) cc = watchForCancelledContracts_log env l cc"
| "handle env (CanPerformStateShare l) cc = watchForCompletionEvents_log env l cc"

fun handle_plain :: "Env \<Rightarrow> event \<Rightarrow> registry \<Rightarrow> registry \<times> action list" where
  "handle_plain env (NewExtension l) cc = watchForNewContracts_log_plain env l cc"
| "handle_plain env (FinishedExtension l) cc = watchForCancelledContracts_log_plain env l cc"
| "handle_plain env (CanPerformStateShare l) cc = watchForCompletionEvents_log_plain env l cc"

fun process :: "(Env \<times> event) list \<Rightarrow> registry \<Rightarrow> registry \<times> action list" where
  "process [] cc = (cc, [])"
| "process ((env, e) # rest) cc =
     (let (cc1, t1) = handle env e cc
      in if panicked t1 then (cc1, t1)
         else let (cc2, t2) = process rest cc1 in (cc2, t1 @ t2))"

fun process_plain :: "(Env \<times> event) list \<Rightarrow> registry \<Rightarrow> registry \<times> action list" where
  "process_plain [] cc = (cc, [])"
| "process_plain ((env, e) # rest) cc =
     (let (cc1, t1) = handle_plain env e cc
      in if panicked t1 then (cc1, t1)
         else let (cc2, t2) = process_plain rest cc1 in (cc2, t1 @ t2))"

text \<open>
  The logs of a sequence that the watchers took up: all of them, or those up to and
  including the one whose handling panicked.
\<close>

fun processed :: "(Env \<times> event) list \<Rightarrow> registry \<Rightarrow> (Env \<times> event) list" where
  "processed [] cc = []"
| "processed ((env, e) # rest) cc =
     (let (cc1, t1) = handle env e cc
      in (env, e) # (if panicked t1 then [] else processed rest cc1))"

fun processed_plain :: "(Env \<times> event) list \<Rightarrow> registry \<Rightarrow> (Env \<times> event) list" where
  "processed_plain [] cc = []"
| "processed_plain ((env, e) # rest) cc =
     (let (cc1, t1) = handle_plain env e cc
      in (env, e) # (if panicked t1 then [] else processed_plain rest cc1))"

subsection \<open>Reading a list of actions\<close>

text \<open>The calls on collaborators in a list of actions, in order.\<close>

fun ext_calls :: "action list \<Rightarrow> call list" where
  "ext_calls [] = []"
| "ext_calls (Ext c # t) = c # ext_calls t"
| "ext_calls (a # t) = ext_calls t"

text \<open>Writes to and deletions from \<^verbatim>\<open>service.currentContracts\<close>.\<close>

fun is_mutation :: "action \<Rightarrow> bool" where
  "is_mutation (MapStore a r) = True"
| "is_mutation (MapDelete a) = True"
| "is_mutation x = False"

fun is_Send :: "call \<Rightarrow> bool" where
  "is_Send (PTM_Send d f to) = True"
| "is_Send c = False"

fun is_SetSharedStateHash :: "call \<Rightarrow> bool" where
  "is_SetSharedStateHash (Transactor_SetSharedStateHash tr opts h) = True"
| "is_SetSharedStateHash c = False"

text \<open>The self-approval vote: \<^verbatim>\<open>ApproveContractExtension\<close>, or \<^verbatim>\<open>VoteOnContract\<close> in the plain variant.\<close>

fun is_vote :: "call \<Rightarrow> bool" where
  "is_vote (API_ApproveContractExtension a v args) = True"
| "is_vote (API_VoteOnContract a v args) = True"
| "is_vote c = False"

text \<open>
  A scan of a list of actions with two flags: \<open>held\<close>, the mutex is held, and
  \<open>dirty\<close>, the registry was written or deleted from and \<^verbatim>\<open>Save\<close> was not called
  since. The scan accepts when every mutation happens with the mutex held, the mutex is
  never released while \<open>dirty\<close>, and the list does not end \<open>dirty\<close>.
\<close>

fun persist_ok :: "bool \<Rightarrow> bool \<Rightarrow> action list \<Rightarrow> bool" where
  "persist_ok held dirty [] = (\<not> dirty)"
| "persist_ok held dirty (Lock # t) = persist_ok True dirty t"
| "persist_ok held dirty (Unlock # t) = (\<not> dirty \<and> persist_ok False False t)"
| "persist_ok held dirty (MapStore a r # t) = (held \<and> persist_ok held True t)"
| "persist_ok held dirty (MapDelete a # t) = (held \<and> persist_ok held True t)"
| "persist_ok held dirty (Ext (DataHandler_Save r) # t) = persist_ok held False t"
| "persist_ok held dirty (x # t) = persist_ok held dirty t"

text \<open>
  The calls of a list of steps, each paired with whether it failed, up to and including
  the first that failed.
\<close>

fun until_failure :: "('a \<times> bool) list \<Rightarrow> 'a list" where
  "until_failure [] = []"
| "until_failure ((x, failed) # xs) = x # (if failed then [] else until_failure xs)"

text \<open>
  The state share as the specification words it (section 4.4, steps 2 to 9): the
  steps in order, each with the call it makes on a collaborator (the base64 decoding of
  step 5 makes none) and with whether it failed; "any failure in steps 2-9 aborts
  processing of that single event". A step that needs the object of a failed call has
  nothing to be computed from: the list ends at such a failure.
\<close>

definition stateShare_steps :: "Env \<Rightarrow> Log \<Rightarrow> ExtensionContract \<Rightarrow> (call option \<times> bool) list" where
  "stateShare_steps env l extensionEntry =
    (case Caller env (LogAddress l) of
       Inl e1 \<Rightarrow> [(Some (Facade_Caller (LogAddress l)), True)]
     | Inr caller \<Rightarrow>
        (let (contractCreator, e2) = Creator env caller;
             payload = BytesToEncryptedPayloadHash env (CreationData extensionEntry);
             (fetchedParties, e3) = GetParticipants env payload;
             args = \<lparr>From = contractCreator, PrivateFor = fetchedParties\<rparr>
         in [(Some (Facade_Caller (LogAddress l)), False),
             (Some (Caller_Creator caller), e2 \<noteq> None),
             (Some (AccountManager_Exists contractCreator), \<not> Exists env contractCreator),
             (Some (PTM_GetParticipants payload), e3 \<noteq> None)] @
            (case GenerateTransactOptions env args of
               Inl e4 \<Rightarrow> [(Some (AccountManager_GenerateTransactOptions args), True)]
             | Inr txArgs \<Rightarrow>
                (let (recipientHash, e5) = TargetRecipientPublicKeyHash env caller;
                     (decoded, e6) = DecodeString env recipientHash;
                     (recipient, e7) = Receive env decoded;
                     (contractToExtend, e8) = ContractToExtend env caller;
                     (entireStateData, e9) =
                       GetAddressStateFromBlock env (BlockHash l) contractToExtend;
                     (hashOfStateData, e10) = Send env entireStateData [] [recipient];
                     hashofStateDataBase64 = EncodeToString env hashOfStateData
                 in [(Some (AccountManager_GenerateTransactOptions args), False),
                     (Some (Caller_TargetRecipientPublicKeyHash caller), e5 \<noteq> None),
                     (None, e6 \<noteq> None),
                     (Some (PTM_Receive decoded), e7 \<noteq> None),
                     (Some (Caller_ContractToExtend caller), e8 \<noteq> None),
                     (Some (StateFetcher_GetAddressStateFromBlock (BlockHash l)
                              contractToExtend), e9 \<noteq> None),
                     (Some (PTM_Send entireStateData [] [recipient]), e10 \<noteq> None)] @
                    (case Transactor env (LogAddress l) of
                       Inl e11 \<Rightarrow> [(Some (Facade_Transactor (LogAddress l)), True)]
                     | Inr transactor \<Rightarrow>
                        [(Some (Facade_Transactor (LogAddress l)), False),
                         (Some (Transactor_SetSharedStateHash transactor txArgs
                                  hashofStateDataBase64),
                          snd (SetSharedStateHash env transactor txArgs
                                 hashofStateDataBase64) \<noteq> None)])))))"

fun somes :: "'a option list \<Rightarrow> 'a list" where
  "somes [] = []"
| "somes (None # xs) = somes xs"
| "somes (Some x # xs) = x # somes xs"

subsection \<open>Concrete inputs\<close>

text \<open>Collaborators that all answer without error.\<close>

definition env_ok :: Env where
  "env_ok =
    \<lparr>TransactionByHash = (\<lambda>h. Inr h),
     Sender = (\<lambda>tx. (11, None)),
     TxData = (\<lambda>tx. ''payload''),
     UnpackNewExtensionCreatedLog = (\<lambda>d. (\<lparr>ToExtend = 7\<rparr>, None)),
     Save = (\<lambda>m. None),
     BytesToEncryptedPayloadHash = (\<lambda>b. b),
     IsSender = (\<lambda>h. (True, None)),
     GetParticipants = (\<lambda>h. ([''partyA'', ''partyB''], None)),
     Caller = (\<lambda>a. Inr a),
     Creator = (\<lambda>c. (11, None)),
     ApproveContractExtension = (\<lambda>a v args. (''0xvote'', None)),
     VoteOnContract = (\<lambda>a v args. (''0xvote'', None)),
     Exists = (\<lambda>a. True),
     GenerateTransactOptions = (\<lambda>args. Inr 1),
     TargetRecipientPublicKeyHash = (\<lambda>c. (''a2V5'', None)),
     DecodeString = (\<lambda>s. (''key'', None)),
     Receive = (\<lambda>b. (''pubkey'', None)),
     ContractToExtend = (\<lambda>c. (7, None)),
     GetAddressStateFromBlock = (\<lambda>h a. (''state'', None)),
     Send = (\<lambda>d f to. (''hash'', None)),
     EncodeToString = (\<lambda>b. ''aGFzaA==''),
     Transactor = (\<lambda>a. Inr a),
     SetSharedStateHash = (\<lambda>tr opts h. (99, None))\<rparr>"

definition log0 :: Log where
  "log0 = \<lparr>LogAddress = 5, TxHash = 3, Data = ''event'', BlockHash = 8, BlockNumber = 1\<rparr>"

definition entry0 :: ExtensionContract where
  "entry0 = \<lparr>Address = 7, Initiator = 11, ManagementContractAddress = 5,
             CreationData = ''payload''\<rparr>"

text \<open>A second creation log, for another management contract.\<close>

definition log1 :: Log where
  "log1 = \<lparr>LogAddress = 6, TxHash = 4, Data = ''event'', BlockHash = 9, BlockNumber = 2\<rparr>"

subsection \<open>Reading a run\<close>

text \<open>
  The record that \<^verbatim>\<open>watchForNewContracts\<close> builds for a log and the transaction
  that the lookup returned: the struct literal \<^verbatim>\<open>ExtensionContract{...}\<close> over the
  results of the sender recovery and the decoding, whatever the error of the former.
\<close>

definition newContractExtension_of :: "Env \<Rightarrow> Log \<Rightarrow> transaction \<Rightarrow> ExtensionContract" where
  "newContractExtension_of env foundLog tx =
    (let (from', _) = Sender env tx;
         (newExtensionEvent, _) = UnpackNewExtensionCreatedLog env (Data foundLog)
     in \<lparr>Address = ToExtend newExtensionEvent,
         Initiator = from',
         ManagementContractAddress = LogAddress foundLog,
         CreationData = TxData env tx\<rparr>)"

text \<open>
  A creation log for address \<open>a\<close> whose payload was decoded (the handler got as far as
  the decoding, which comes after the use of the transaction, and the decoding
  succeeded), and a cancellation log for address \<open>a\<close>.
\<close>

fun creates :: "address \<Rightarrow> Env \<times> event \<Rightarrow> bool" where
  "creates a (env, NewExtension l) =
     (LogAddress l = a \<and> ptr (TransactionByHash env (TxHash l)) \<noteq> None \<and>
      snd (UnpackNewExtensionCreatedLog env (Data l)) = None)"
| "creates a (env, e) = False"

fun cancels :: "address \<Rightarrow> Env \<times> event \<Rightarrow> bool" where
  "cancels a (env, FinishedExtension l) = (LogAddress l = a)"
| "cancels a (env, e) = False"

text \<open>
  The state machine of the specification, per management contract address:
  \<^verbatim>\<open>(absent) --create--> Open --cancel--> (absent)\<close>, where a creation log that is
  not decoded and a completion log leave the state as it is. \<open>open_after a b steps\<close> is
  the state after \<open>steps\<close> when it was \<open>b\<close> before (\<open>True\<close> is Open).
\<close>

fun open_after :: "address \<Rightarrow> bool \<Rightarrow> (Env \<times> event) list \<Rightarrow> bool" where
  "open_after a b [] = b"
| "open_after a b (s # rest) =
     open_after a (if creates a s then True else if cancels a s then False else b) rest"

section \<open>Properties\<close>

subsection \<open>Shared facts\<close>

lemma ext_calls_append: "ext_calls (a @ b) = ext_calls a @ ext_calls b"
  by (induction a rule: ext_calls.induct) simp_all

lemma panicked_append: "panicked (a @ b) = (panicked a \<or> panicked b)"
  by (induction a rule: panicked.induct) simp_all

lemma completion_keeps_registry: "fst (watchForCompletionEvents_log env l cc) = cc"
  unfolding watchForCompletionEvents_log_def Let_def split_def
  by (simp split: option.splits sum.splits)

lemma completion_keeps_registry_plain: "fst (watchForCompletionEvents_log_plain env l cc) = cc"
  unfolding watchForCompletionEvents_log_plain_def Let_def split_def
  by (simp split: option.splits)

lemma completion_no_mutation:
  "filter is_mutation (snd (watchForCompletionEvents_log env l cc)) = []"
  unfolding watchForCompletionEvents_log_def Let_def split_def
  by (simp split: option.splits sum.splits)

lemma completion_no_mutation_plain:
  "filter is_mutation (snd (watchForCompletionEvents_log_plain env l cc)) = []"
  unfolding watchForCompletionEvents_log_plain_def Let_def split_def
  by (simp split: option.splits)

text \<open>The defensive completion watcher dereferences no \<^verbatim>\<open>nil\<close>.\<close>

lemma completion_never_panics: "\<not> panicked (snd (watchForCompletionEvents_log env l cc))"
  unfolding watchForCompletionEvents_log_def Let_def split_def
  by (simp split: option.splits sum.splits)

text \<open>
  The defensive variant makes the calls of the state share up to and including the first
  step that fails, and none after it.
\<close>

lemma completion_calls:
  "cc (LogAddress l) = Some e \<Longrightarrow>
   ext_calls (snd (watchForCompletionEvents_log env l cc)) =
     somes (until_failure (stateShare_steps env l e))"
  unfolding watchForCompletionEvents_log_def stateShare_steps_def Let_def split_def
  by (simp split: sum.splits)

subsection \<open>The completion watcher and the registry\<close>

text \<open>
  C2. Processing one completion event never changes the registry. In both variants the
  registry after the event is the registry before it, whatever the collaborators answer
  and wherever the state share stops (a panic included), and the actions of the event
  hold no write to and no deletion from \<^verbatim>\<open>currentContracts\<close>. In particular a
  record that was present for the address is still present, unchanged, after a state
  share that ran to its end.
\<close>

theorem c2_completion_never_mutates:
  "fst (watchForCompletionEvents_log env l cc) = cc \<and>
   fst (watchForCompletionEvents_log_plain env l cc) = cc \<and>
   filter is_mutation (snd (watchForCompletionEvents_log env l cc)) = [] \<and>
   filter is_mutation (snd (watchForCompletionEvents_log_plain env l cc)) = []"
  by (simp only: completion_keeps_registry completion_keeps_registry_plain
      completion_no_mutation completion_no_mutation_plain simp_thms)

theorem c2_completion_never_mutates_witness:
  "filter is_SetSharedStateHash (ext_calls (snd
     (watchForCompletionEvents_log env_ok log0 (Map.empty(5 \<mapsto> entry0))))) =
     [Transactor_SetSharedStateHash 5 1 ''aGFzaA==''] \<and>
   fst (watchForCompletionEvents_log env_ok log0 (Map.empty(5 \<mapsto> entry0))) 5 = Some entry0 \<and>
   fst (watchForCompletionEvents_log_plain env_ok log0 (Map.empty(5 \<mapsto> entry0))) 5 =
     Some entry0"
proof -
  have r: "(Map.empty(5 \<mapsto> entry0)) (LogAddress log0) = Some entry0"
    by (simp add: log0_def)
  have d: "ext_calls (snd (watchForCompletionEvents_log env_ok log0 (Map.empty(5 \<mapsto> entry0)))) =
     somes (until_failure (stateShare_steps env_ok log0 entry0))"
    by (rule completion_calls
          [where cc = "Map.empty(5 \<mapsto> entry0)" and l = log0 and e = entry0], rule r)
  have s: "filter is_SetSharedStateHash (ext_calls (snd
     (watchForCompletionEvents_log env_ok log0 (Map.empty(5 \<mapsto> entry0))))) =
     [Transactor_SetSharedStateHash 5 1 ''aGFzaA=='']"
    unfolding d by (simp add: stateShare_steps_def env_ok_def log0_def entry0_def)
  show ?thesis
    using s c2_completion_never_mutates [of env_ok log0 "Map.empty(5 \<mapsto> entry0)"]
    by simp
qed

text \<open>
  C6. A completion event whose address has no record in the registry makes no call on any
  collaborator: in both variants the handler takes the lock, finds no record, releases
  the lock and is done (the defensive variant also writes two debug lines), and the
  registry is as before.
\<close>

theorem c6_absent_record_no_calls:
  assumes "cc (LogAddress l) = None"
  shows "watchForCompletionEvents_log env l cc =
           (cc, [LogMsg Debug ''[SOS] Receieved a completion event'', Lock,
                 LogMsg Debug ''[SOS] this node doesn't participate in the contract extender'',
                 Unlock]) \<and>
         watchForCompletionEvents_log_plain env l cc = (cc, [Lock, Unlock]) \<and>
         ext_calls (snd (watchForCompletionEvents_log env l cc)) = [] \<and>
         ext_calls (snd (watchForCompletionEvents_log_plain env l cc)) = []"
  using assms
  by (simp add: watchForCompletionEvents_log_def watchForCompletionEvents_log_plain_def)

theorem c6_absent_record_no_calls_witness:
  "Map.empty (LogAddress log0) = None \<and>
   watchForCompletionEvents_log env_ok log0 Map.empty =
           (Map.empty, [LogMsg Debug ''[SOS] Receieved a completion event'', Lock,
                 LogMsg Debug ''[SOS] this node doesn't participate in the contract extender'',
                 Unlock]) \<and>
   watchForCompletionEvents_log_plain env_ok log0 Map.empty = (Map.empty, [Lock, Unlock]) \<and>
   ext_calls (snd (watchForCompletionEvents_log env_ok log0 Map.empty)) = [] \<and>
   ext_calls (snd (watchForCompletionEvents_log_plain env_ok log0 Map.empty)) = []"
  using c6_absent_record_no_calls [of Map.empty log0 env_ok] by simp

text \<open>
  C4. A completion event whose address has a record, on a node where the account manager
  does not have the creator that the management contract names: neither variant calls
  \<^verbatim>\<open>Send\<close> on the private transaction manager or \<^verbatim>\<open>SetSharedStateHash\<close>.
  (Where \<^verbatim>\<open>Caller\<close> fails no creator is resolved, and neither call is made
  either.)
\<close>

theorem c4_no_credentials_no_send:
  assumes "cc (LogAddress l) = Some e"
    and "case Caller env (LogAddress l) of
           Inl err \<Rightarrow> True
         | Inr caller \<Rightarrow> \<not> Exists env (fst (Creator env caller))"
  shows "filter is_Send (ext_calls (snd (watchForCompletionEvents_log env l cc))) = [] \<and>
         filter is_SetSharedStateHash
           (ext_calls (snd (watchForCompletionEvents_log env l cc))) = [] \<and>
         filter is_Send (ext_calls (snd (watchForCompletionEvents_log_plain env l cc))) = [] \<and>
         filter is_SetSharedStateHash
           (ext_calls (snd (watchForCompletionEvents_log_plain env l cc))) = []"
proof -
  have d: "ext_calls (snd (watchForCompletionEvents_log env l cc)) =
      somes (until_failure (stateShare_steps env l e))"
    using assms(1) by (rule completion_calls)
  show ?thesis
  proof (cases "Caller env (LogAddress l)")
    case (Inl err)
    have s: "somes (until_failure (stateShare_steps env l e)) = [Facade_Caller (LogAddress l)]"
      by (simp add: stateShare_steps_def Inl)
    have p: "ext_calls (snd (watchForCompletionEvents_log_plain env l cc)) =
               [Facade_Caller (LogAddress l)]"
      by (simp add: watchForCompletionEvents_log_plain_def ptr_def Inl assms(1))
    show ?thesis unfolding d s p by simp
  next
    case (Inr caller)
    from assms(2) have nx: "\<not> Exists env (fst (Creator env caller))"
      by (simp add: Inr)
    have s: "somes (until_failure (stateShare_steps env l e)) =
               [Facade_Caller (LogAddress l), Caller_Creator caller] @
               (if snd (Creator env caller) = None
                then [AccountManager_Exists (fst (Creator env caller))] else [])"
      by (simp add: stateShare_steps_def Inr Let_def split_def nx)
    have p: "ext_calls (snd (watchForCompletionEvents_log_plain env l cc)) =
               [Facade_Caller (LogAddress l), Caller_Creator caller,
                AccountManager_Exists (fst (Creator env caller))]"
      by (simp add: watchForCompletionEvents_log_plain_def ptr_def Inr assms(1)
          Let_def split_def nx)
    show ?thesis unfolding d s p by simp
  qed
qed

theorem c4_no_credentials_no_send_witness:
  "(Map.empty(5 \<mapsto> entry0)) (LogAddress log0) = Some entry0 \<and>
   Caller (env_ok\<lparr>Exists := (\<lambda>a. False)\<rparr>) (LogAddress log0) = Inr 5 \<and>
   \<not> Exists (env_ok\<lparr>Exists := (\<lambda>a. False)\<rparr>)
       (fst (Creator (env_ok\<lparr>Exists := (\<lambda>a. False)\<rparr>) 5)) \<and>
   filter is_Send (ext_calls (snd (watchForCompletionEvents_log
      (env_ok\<lparr>Exists := (\<lambda>a. False)\<rparr>) log0 (Map.empty(5 \<mapsto> entry0))))) = [] \<and>
   filter is_SetSharedStateHash (ext_calls (snd (watchForCompletionEvents_log
      (env_ok\<lparr>Exists := (\<lambda>a. False)\<rparr>) log0 (Map.empty(5 \<mapsto> entry0))))) = [] \<and>
   filter is_Send (ext_calls (snd (watchForCompletionEvents_log_plain
      (env_ok\<lparr>Exists := (\<lambda>a. False)\<rparr>) log0 (Map.empty(5 \<mapsto> entry0))))) = [] \<and>
   filter is_SetSharedStateHash (ext_calls (snd (watchForCompletionEvents_log_plain
      (env_ok\<lparr>Exists := (\<lambda>a. False)\<rparr>) log0 (Map.empty(5 \<mapsto> entry0))))) = []"
proof -
  have h1: "(Map.empty(5 \<mapsto> entry0)) (LogAddress log0) = Some entry0"
    by (simp add: log0_def)
  have c: "Caller (env_ok\<lparr>Exists := (\<lambda>a. False)\<rparr>) (LogAddress log0) = Inr 5"
    by (simp add: env_ok_def log0_def)
  have x: "\<not> Exists (env_ok\<lparr>Exists := (\<lambda>a. False)\<rparr>)
       (fst (Creator (env_ok\<lparr>Exists := (\<lambda>a. False)\<rparr>) 5))"
    by simp
  have h2: "case Caller (env_ok\<lparr>Exists := (\<lambda>a. False)\<rparr>) (LogAddress log0) of
           Inl err \<Rightarrow> True
         | Inr caller \<Rightarrow> \<not> Exists (env_ok\<lparr>Exists := (\<lambda>a. False)\<rparr>)
              (fst (Creator (env_ok\<lparr>Exists := (\<lambda>a. False)\<rparr>) caller))"
    unfolding c by simp
  note t = c4_no_credentials_no_send [where cc = "Map.empty(5 \<mapsto> entry0)" and l = log0
        and e = entry0 and env = "env_ok\<lparr>Exists := (\<lambda>a. False)\<rparr>", OF h1 h2]
  show ?thesis
    using h1 c x t by (intro conjI) (elim conjE, assumption)+
qed

subsection \<open>The creation watcher\<close>

lemma new_registry:
  "fst (watchForNewContracts_log env l cc) =
     (case TransactionByHash env (TxHash l) of
        Inl e \<Rightarrow> cc
      | Inr tx \<Rightarrow>
          if snd (UnpackNewExtensionCreatedLog env (Data l)) = None
          then cc(LogAddress l \<mapsto> newContractExtension_of env l tx) else cc)"
  unfolding watchForNewContracts_log_def newContractExtension_of_def Let_def split_def ptr_def
  by (simp split: sum.splits option.splits)

lemma new_registry_plain:
  "fst (watchForNewContracts_log_plain env l cc) =
     (case TransactionByHash env (TxHash l) of
        Inl e \<Rightarrow> cc
      | Inr tx \<Rightarrow>
          if snd (UnpackNewExtensionCreatedLog env (Data l)) = None
          then cc(LogAddress l \<mapsto> newContractExtension_of env l tx) else cc)"
  unfolding watchForNewContracts_log_plain_def newContractExtension_of_def Let_def split_def
    ptr_def
  by (simp split: sum.splits option.splits)

text \<open>
  With a transaction found, whether the creation watcher inserts a record depends on the
  decoding alone, and the error of the sender recovery is dropped: the initiator is the
  address that \<^verbatim>\<open>Sender\<close> returned with it.
\<close>

lemma new_registry_with_transaction:
  assumes "TransactionByHash env (TxHash l) = Inr tx"
  shows "fst (watchForNewContracts_log env l cc) =
     (if snd (UnpackNewExtensionCreatedLog env (Data l)) = None
      then cc(LogAddress l \<mapsto>
             \<lparr>Address = ToExtend (fst (UnpackNewExtensionCreatedLog env (Data l))),
              Initiator = fst (Sender env tx),
              ManagementContractAddress = LogAddress l,
              CreationData = TxData env tx\<rparr>)
      else cc)"
    and "fst (watchForNewContracts_log_plain env l cc) = fst (watchForNewContracts_log env l cc)"
  unfolding new_registry new_registry_plain assms newContractExtension_of_def Let_def split_def
  by simp_all

text \<open>
  C9. After a failed transaction lookup the record is to be inserted all the same, from
  the zero results. Both variants do drop the error (\<^verbatim>\<open>tx, _ := ...\<close>), and then
  hand the \<^verbatim>\<open>nil\<close> transaction to \<^verbatim>\<open>Sender\<close>: on a creation log whose payload
  would decode and whose transaction is not found, the handler panics after the lookup,
  with the mutex held, and the registry has no record. (With a transaction found the
  claim holds, a failed sender recovery included: \<open>new_registry_with_transaction\<close>.)
\<close>

theorem c9_failed_lookup_panics_before_insert:
  "TransactionByHash (env_ok\<lparr>TransactionByHash := (\<lambda>h. Inl ''not found'')\<rparr>) (TxHash log0) =
     Inl ''not found'' \<and>
   snd (UnpackNewExtensionCreatedLog
          (env_ok\<lparr>TransactionByHash := (\<lambda>h. Inl ''not found'')\<rparr>) (Data log0)) = None \<and>
   watchForNewContracts_log
     (env_ok\<lparr>TransactionByHash := (\<lambda>h. Inl ''not found'')\<rparr>) log0 Map.empty =
     (Map.empty, [Lock, Ext (ExtClient_TransactionByHash 3), Panic]) \<and>
   watchForNewContracts_log_plain
     (env_ok\<lparr>TransactionByHash := (\<lambda>h. Inl ''not found'')\<rparr>) log0 Map.empty =
     (Map.empty, [Lock, Ext (ExtClient_TransactionByHash 3), Panic]) \<and>
   fst (watchForNewContracts_log
     (env_ok\<lparr>Sender := (\<lambda>tx. (0, Some ''invalid signature''))\<rparr>) log0 Map.empty) 5 =
     Some \<lparr>Address = 7, Initiator = 0, ManagementContractAddress = 5,
           CreationData = ''payload''\<rparr>"
  by (simp add: watchForNewContracts_log_def watchForNewContracts_log_plain_def ptr_def
      env_ok_def log0_def Let_def)

text \<open>
  C8. When \<^verbatim>\<open>Save\<close> fails right after the creation watcher has stored the record, the
  record stays in the registry, the handler logs the error, releases the lock and does
  nothing more for this log (no is-sender query, no vote), and the loop goes on with what
  it receives next. Both variants.
\<close>

theorem c8_save_failure_keeps_insert:
  assumes "TransactionByHash env (TxHash l) = Inr tx"
    and "snd (UnpackNewExtensionCreatedLog env (Data l)) = None"
    and "Save env (cc(LogAddress l \<mapsto> newContractExtension_of env l tx)) \<noteq> None"
  shows "watchForNewContracts_log env l cc =
           (cc(LogAddress l \<mapsto> newContractExtension_of env l tx),
            [Lock, Ext (ExtClient_TransactionByHash (TxHash l)),
             Ext (Signer_Sender tx),
             MapStore (LogAddress l) (newContractExtension_of env l tx),
             Ext (DataHandler_Save (cc(LogAddress l \<mapsto> newContractExtension_of env l tx))),
             LogMsg Error ''Error writing extension data to file'', Unlock]) \<and>
         watchForNewContracts_log_plain env l cc = watchForNewContracts_log env l cc \<and>
         watchForNewContracts ((env, IncomingLog l) # rest) cc =
           (fst (watchForNewContracts rest
                   (cc(LogAddress l \<mapsto> newContractExtension_of env l tx))),
            snd (watchForNewContracts_log env l cc) @
            snd (watchForNewContracts rest
                   (cc(LogAddress l \<mapsto> newContractExtension_of env l tx)))) \<and>
         watchForNewContracts_plain ((env, IncomingLog l) # rest) cc =
           (fst (watchForNewContracts_plain rest
                   (cc(LogAddress l \<mapsto> newContractExtension_of env l tx))),
            snd (watchForNewContracts_log env l cc) @
            snd (watchForNewContracts_plain rest
                   (cc(LogAddress l \<mapsto> newContractExtension_of env l tx))))"
proof -
  have a: "watchForNewContracts_log env l cc =
           (cc(LogAddress l \<mapsto> newContractExtension_of env l tx),
            [Lock, Ext (ExtClient_TransactionByHash (TxHash l)),
             Ext (Signer_Sender tx),
             MapStore (LogAddress l) (newContractExtension_of env l tx),
             Ext (DataHandler_Save (cc(LogAddress l \<mapsto> newContractExtension_of env l tx))),
             LogMsg Error ''Error writing extension data to file'', Unlock])"
    using assms
    unfolding watchForNewContracts_log_def newContractExtension_of_def Let_def split_def ptr_def
    by simp
  have b: "watchForNewContracts_log_plain env l cc =
           (cc(LogAddress l \<mapsto> newContractExtension_of env l tx),
            [Lock, Ext (ExtClient_TransactionByHash (TxHash l)),
             Ext (Signer_Sender tx),
             MapStore (LogAddress l) (newContractExtension_of env l tx),
             Ext (DataHandler_Save (cc(LogAddress l \<mapsto> newContractExtension_of env l tx))),
             LogMsg Error ''Error writing extension data to file'', Unlock])"
    using assms
    unfolding watchForNewContracts_log_plain_def newContractExtension_of_def Let_def split_def
      ptr_def
    by simp
  show ?thesis
    unfolding watchForNewContracts.simps watchForNewContracts_plain.simps a b
    by (simp add: split_def Let_def)
qed

theorem c8_save_failure_keeps_insert_witness:
  "TransactionByHash (env_ok\<lparr>Save := (\<lambda>m. Some ''disk full'')\<rparr>) (TxHash log0) = Inr 3 \<and>
   snd (UnpackNewExtensionCreatedLog (env_ok\<lparr>Save := (\<lambda>m. Some ''disk full'')\<rparr>) (Data log0)) = None \<and>
   Save (env_ok\<lparr>Save := (\<lambda>m. Some ''disk full'')\<rparr>)
     (Map.empty(LogAddress log0 \<mapsto>
        newContractExtension_of (env_ok\<lparr>Save := (\<lambda>m. Some ''disk full'')\<rparr>) log0 3)) \<noteq> None \<and>
   fst (watchForNewContracts_log (env_ok\<lparr>Save := (\<lambda>m. Some ''disk full'')\<rparr>) log0 Map.empty) 5
     = Some entry0 \<and>
   filter is_vote (ext_calls (snd
     (watchForNewContracts_log (env_ok\<lparr>Save := (\<lambda>m. Some ''disk full'')\<rparr>) log0 Map.empty))) = [] \<and>
   fst (watchForNewContracts
          [(env_ok\<lparr>Save := (\<lambda>m. Some ''disk full'')\<rparr>, IncomingLog log0),
           (env_ok, IncomingLog log1)] Map.empty) 6 \<noteq> None \<and>
   fst (watchForNewContracts_plain
          [(env_ok\<lparr>Save := (\<lambda>m. Some ''disk full'')\<rparr>, IncomingLog log0),
           (env_ok, IncomingLog log1)] Map.empty) 5 = Some entry0"
proof -
  have h0: "TransactionByHash (env_ok\<lparr>Save := (\<lambda>m. Some ''disk full'')\<rparr>) (TxHash log0) = Inr 3"
    by (simp add: env_ok_def log0_def)
  have h1: "snd (UnpackNewExtensionCreatedLog (env_ok\<lparr>Save := (\<lambda>m. Some ''disk full'')\<rparr>)
                    (Data log0)) = None"
    by (simp add: env_ok_def)
  have h2: "Save (env_ok\<lparr>Save := (\<lambda>m. Some ''disk full'')\<rparr>)
     (Map.empty(LogAddress log0 \<mapsto>
        newContractExtension_of (env_ok\<lparr>Save := (\<lambda>m. Some ''disk full'')\<rparr>) log0 3)) \<noteq> None"
    by simp
  have r: "newContractExtension_of (env_ok\<lparr>Save := (\<lambda>m. Some ''disk full'')\<rparr>) log0 3 = entry0"
    by (simp add: newContractExtension_of_def env_ok_def log0_def entry0_def)
  note t = c8_save_failure_keeps_insert
      [where env = "env_ok\<lparr>Save := (\<lambda>m. Some ''disk full'')\<rparr>"
        and l = log0 and cc = Map.empty and tx = 3
        and rest = "[(env_ok, IncomingLog log1)]", OF h0 h1 h2]
  note t1 = t [THEN conjunct1]
  note t3 = t [THEN conjunct2, THEN conjunct2, THEN conjunct1]
  note t4 = t [THEN conjunct2, THEN conjunct2, THEN conjunct2]
  have c1: "fst (watchForNewContracts_log (env_ok\<lparr>Save := (\<lambda>m. Some ''disk full'')\<rparr>)
                   log0 Map.empty) 5 = Some entry0"
    unfolding t1 r by (simp add: log0_def)
  have c2: "filter is_vote (ext_calls (snd
     (watchForNewContracts_log (env_ok\<lparr>Save := (\<lambda>m. Some ''disk full'')\<rparr>) log0 Map.empty))) = []"
    unfolding t1 by simp
  have c3: "fst (watchForNewContracts
          [(env_ok\<lparr>Save := (\<lambda>m. Some ''disk full'')\<rparr>, IncomingLog log0),
           (env_ok, IncomingLog log1)] Map.empty) 6 \<noteq> None"
    unfolding t3 by (simp add: new_registry split_def Let_def env_ok_def log1_def)
  have c4: "fst (watchForNewContracts_plain
          [(env_ok\<lparr>Save := (\<lambda>m. Some ''disk full'')\<rparr>, IncomingLog log0),
           (env_ok, IncomingLog log1)] Map.empty) 5 = Some entry0"
    unfolding t4 r
    by (simp add: new_registry_plain split_def Let_def env_ok_def log1_def log0_def)
  show ?thesis
    using h0 h1 h2 c1 c2 c3 c4 by (intro conjI)
qed

text \<open>
  C5 (as the code has it). On a creation log whose transaction was found, the watcher
  submits the self-approval vote exactly once when the payload decodes, \<^verbatim>\<open>Save\<close>
  succeeds, the is-sender query returns true for the hash of the creation payload, the
  participant lookup for that hash succeeds and \<^verbatim>\<open>Caller\<close> returns the binding of
  the management contract; it submits none when the payload does not decode,
  \<^verbatim>\<open>Save\<close> fails, the query returns false or the participant lookup fails. Both
  variants. (What happens on a \<^verbatim>\<open>nil\<close> transaction or binding is left out here.)
\<close>

theorem c5_vote_once_when_sender_and_participants:
  assumes "TransactionByHash env (TxHash l) = Inr tx"
  shows "(snd (UnpackNewExtensionCreatedLog env (Data l)) = None \<and>
          Save env (cc(LogAddress l \<mapsto> newContractExtension_of env l tx)) = None \<and>
          fst (IsSender env (BytesToEncryptedPayloadHash env
                 (CreationData (newContractExtension_of env l tx)))) \<and>
          snd (GetParticipants env (BytesToEncryptedPayloadHash env
                 (CreationData (newContractExtension_of env l tx)))) = None \<and>
          Caller env (LogAddress l) = Inr caller
          \<longrightarrow> length (filter is_vote
                 (ext_calls (snd (watchForNewContracts_log env l cc)))) = 1) \<and>
         (\<not> (snd (UnpackNewExtensionCreatedLog env (Data l)) = None \<and>
             Save env (cc(LogAddress l \<mapsto> newContractExtension_of env l tx)) = None \<and>
             fst (IsSender env (BytesToEncryptedPayloadHash env
                    (CreationData (newContractExtension_of env l tx)))) \<and>
             snd (GetParticipants env (BytesToEncryptedPayloadHash env
                    (CreationData (newContractExtension_of env l tx)))) = None)
          \<longrightarrow> length (filter is_vote
                 (ext_calls (snd (watchForNewContracts_log env l cc)))) = 0) \<and>
         length (filter is_vote (ext_calls (snd (watchForNewContracts_log_plain env l cc)))) =
           length (filter is_vote (ext_calls (snd (watchForNewContracts_log env l cc))))"
proof -
  have a: "length (filter is_vote (ext_calls (snd (watchForNewContracts_log env l cc)))) =
     (if snd (UnpackNewExtensionCreatedLog env (Data l)) = None \<and>
         Save env (cc(LogAddress l \<mapsto> newContractExtension_of env l tx)) = None \<and>
         fst (IsSender env (BytesToEncryptedPayloadHash env
                (CreationData (newContractExtension_of env l tx)))) \<and>
         snd (GetParticipants env (BytesToEncryptedPayloadHash env
                (CreationData (newContractExtension_of env l tx)))) = None \<and>
         ptr (Caller env (LogAddress l)) \<noteq> None
      then 1 else 0)"
    using assms
    unfolding watchForNewContracts_log_def newContractExtension_of_def Let_def split_def
    by (simp add: ptr_def split: option.splits)
  have b: "length (filter is_vote (ext_calls (snd (watchForNewContracts_log_plain env l cc)))) =
     (if snd (UnpackNewExtensionCreatedLog env (Data l)) = None \<and>
         Save env (cc(LogAddress l \<mapsto> newContractExtension_of env l tx)) = None \<and>
         fst (IsSender env (BytesToEncryptedPayloadHash env
                (CreationData (newContractExtension_of env l tx)))) \<and>
         snd (GetParticipants env (BytesToEncryptedPayloadHash env
                (CreationData (newContractExtension_of env l tx)))) = None \<and>
         ptr (Caller env (LogAddress l)) \<noteq> None
      then 1 else 0)"
    using assms
    unfolding watchForNewContracts_log_plain_def newContractExtension_of_def Let_def split_def
    by (simp add: ptr_def split: option.splits)
  show ?thesis unfolding b a by (simp add: ptr_def)
qed

theorem c5_vote_once_when_sender_and_participants_witness:
  "TransactionByHash env_ok (TxHash log0) = Inr 3 \<and>
   Caller env_ok (LogAddress log0) = Inr 5 \<and>
   fst (IsSender env_ok ''payload'') \<and>
   length (filter is_vote (ext_calls (snd (watchForNewContracts_log env_ok log0 Map.empty)))) = 1 \<and>
   length (filter is_vote (ext_calls (snd (watchForNewContracts_log_plain env_ok log0 Map.empty)))) = 1 \<and>
   \<not> fst (IsSender (env_ok\<lparr>IsSender := (\<lambda>h. (False, None))\<rparr>) ''payload'') \<and>
   length (filter is_vote (ext_calls (snd (watchForNewContracts_log
       (env_ok\<lparr>IsSender := (\<lambda>h. (False, None))\<rparr>) log0 Map.empty)))) = 0"
proof -
  have h: "TransactionByHash env_ok (TxHash log0) = Inr 3"
    by (simp add: env_ok_def log0_def)
  have h': "TransactionByHash (env_ok\<lparr>IsSender := (\<lambda>h. (False, None))\<rparr>) (TxHash log0) = Inr 3"
    by (simp add: env_ok_def log0_def)
  have c: "Caller env_ok (LogAddress log0) = Inr 5"
    by (simp add: env_ok_def log0_def)
  have i: "fst (IsSender env_ok ''payload'')"
    by (simp add: env_ok_def)
  have i': "\<not> fst (IsSender (env_ok\<lparr>IsSender := (\<lambda>h. (False, None))\<rparr>) ''payload'')"
    by simp
  have pre: "snd (UnpackNewExtensionCreatedLog env_ok (Data log0)) = None \<and>
          Save env_ok (Map.empty(LogAddress log0 \<mapsto> newContractExtension_of env_ok log0 3)) = None \<and>
          fst (IsSender env_ok (BytesToEncryptedPayloadHash env_ok
                 (CreationData (newContractExtension_of env_ok log0 3)))) \<and>
          snd (GetParticipants env_ok (BytesToEncryptedPayloadHash env_ok
                 (CreationData (newContractExtension_of env_ok log0 3)))) = None \<and>
          Caller env_ok (LogAddress log0) = Inr 5"
    by (simp add: env_ok_def log0_def)
  note t = c5_vote_once_when_sender_and_participants
      [where env = env_ok and l = log0 and tx = 3 and cc = Map.empty and caller = 5, OF h]
  have v1: "length (filter is_vote
              (ext_calls (snd (watchForNewContracts_log env_ok log0 Map.empty)))) = 1"
    using t [THEN conjunct1] pre by blast
  have v2: "length (filter is_vote
              (ext_calls (snd (watchForNewContracts_log_plain env_ok log0 Map.empty)))) = 1"
    using t [THEN conjunct2, THEN conjunct2] v1 by simp
  note t' = c5_vote_once_when_sender_and_participants
      [where env = "env_ok\<lparr>IsSender := (\<lambda>h. (False, None))\<rparr>" and l = log0 and tx = 3
        and cc = Map.empty and caller = 5, OF h']
  have v3: "length (filter is_vote (ext_calls (snd (watchForNewContracts_log
       (env_ok\<lparr>IsSender := (\<lambda>h. (False, None))\<rparr>) log0 Map.empty)))) = 0"
    using t' [THEN conjunct2, THEN conjunct1] by simp
  show ?thesis
    using h c i v1 v2 i' v3 by (intro conjI)
qed

text \<open>
  The claim as worded fails where the is-sender query returns true and the participant
  lookup fails: the query is made and answers true, and no vote is submitted.
\<close>

theorem c5_sender_without_vote:
  "snd (UnpackNewExtensionCreatedLog
          (env_ok\<lparr>GetParticipants := (\<lambda>h. ([], Some ''unreachable''))\<rparr>) (Data log0)) = None \<and>
   fst (IsSender (env_ok\<lparr>GetParticipants := (\<lambda>h. ([], Some ''unreachable''))\<rparr>) ''payload'') \<and>
   filter is_vote (ext_calls (snd (watchForNewContracts_log
       (env_ok\<lparr>GetParticipants := (\<lambda>h. ([], Some ''unreachable''))\<rparr>) log0 Map.empty))) = [] \<and>
   filter is_vote (ext_calls (snd (watchForNewContracts_log_plain
       (env_ok\<lparr>GetParticipants := (\<lambda>h. ([], Some ''unreachable''))\<rparr>) log0 Map.empty))) = [] \<and>
   ext_calls (snd (watchForNewContracts_log
       (env_ok\<lparr>GetParticipants := (\<lambda>h. ([], Some ''unreachable''))\<rparr>) log0 Map.empty)) =
     [ExtClient_TransactionByHash 3, Signer_Sender 3,
      DataHandler_Save (Map.empty(5 \<mapsto> entry0)),
      PTM_IsSender ''payload'', PTM_GetParticipants ''payload'']"
  by (simp add: watchForNewContracts_log_def watchForNewContracts_log_plain_def ptr_def
      env_ok_def log0_def entry0_def Let_def)

subsection \<open>The cancellation watcher\<close>

lemma cancelled_registry:
  "fst (watchForCancelledContracts_log env l cc) = cc(LogAddress l := None)"
  unfolding watchForCancelledContracts_log_def Let_def
  by (auto split: option.splits)

lemma cancelled_registry_plain:
  "fst (watchForCancelledContracts_log_plain env l cc) = cc(LogAddress l := None)"
  unfolding watchForCancelledContracts_log_plain_def Let_def
  by (auto split: option.splits)

lemma cancelled_never_panics:
  "\<not> panicked (snd (watchForCancelledContracts_log env l cc))"
  "\<not> panicked (snd (watchForCancelledContracts_log_plain env l cc))"
  unfolding watchForCancelledContracts_log_def watchForCancelledContracts_log_plain_def Let_def
  by (simp_all split: option.splits)

text \<open>
  With a record present, the cancellation watcher deletes it and hands \<^verbatim>\<open>Save\<close> the
  registry without it, all under the lock.
\<close>

lemma cancelled_present:
  assumes "cc (LogAddress l) = Some e"
  shows "snd (watchForCancelledContracts_log_plain env l cc) =
           [Lock, MapDelete (LogAddress l),
            Ext (DataHandler_Save (cc(LogAddress l := None))), Unlock]"
    and "ext_calls (snd (watchForCancelledContracts_log env l cc)) =
           [DataHandler_Save (cc(LogAddress l := None))]"
  using assms
  unfolding watchForCancelledContracts_log_plain_def watchForCancelledContracts_log_def Let_def
  by simp_all

subsection \<open>Persistence\<close>











lemma persist_ok_rejects_unsaved:
  "\<not> persist_ok False False [Lock, MapStore 5 entry0, Unlock] \<and>
   \<not> persist_ok False False [Lock, MapDelete 5, Unlock, Ext (DataHandler_Save Map.empty)] \<and>
   \<not> persist_ok False False [MapDelete 5, Ext (DataHandler_Save Map.empty)] \<and>
   \<not> persist_ok False False [Lock, MapStore 5 entry0, Panic]"
  by simp



subsection \<open>The two variants\<close>

lemma handle_same_registry: "fst (handle_plain env e cc) = fst (handle env e cc)"
  by (cases e)
    (simp_all add: new_registry new_registry_plain cancelled_registry cancelled_registry_plain
      completion_keeps_registry completion_keeps_registry_plain)

text \<open>The creation watchers of the two variants panic on the same logs.\<close>

lemma new_panics_same:
  "panicked (snd (watchForNewContracts_log_plain env l cc)) =
   panicked (snd (watchForNewContracts_log env l cc))"
  unfolding watchForNewContracts_log_def watchForNewContracts_log_plain_def Let_def split_def
  by (simp split: option.splits)

lemma handle_panics_plain:
  "panicked (snd (handle env e cc)) \<Longrightarrow> panicked (snd (handle_plain env e cc))"
  by (cases e) (simp_all add: new_panics_same cancelled_never_panics completion_never_panics)

text \<open>
  As long as the plain variant does not panic, the two variants end with the same
  registry.
\<close>

lemma variants_same_registry_without_panic:
  "\<not> panicked (snd (process_plain steps cc)) \<Longrightarrow>
   fst (process_plain steps cc) = fst (process steps cc)"
proof (induction steps arbitrary: cc)
  case Nil
  show ?case by simp
next
  case (Cons s steps)
  obtain env e where s: "s = (env, e)" by (cases s)
  have np: "\<not> panicked (snd (handle_plain env e cc))"
    using Cons.prems by (auto simp: s split_def Let_def panicked_append split: if_splits)
  then have nd: "\<not> panicked (snd (handle env e cc))"
    using handle_panics_plain by blast
  have rest: "\<not> panicked (snd (process_plain steps (fst (handle_plain env e cc))))"
    using Cons.prems np by (simp add: s split_def Let_def panicked_append)
  show ?case
    using Cons.IH [OF rest] np nd
    by (simp add: s split_def Let_def handle_same_registry)
qed

text \<open>
  C10. The two variants are to end with the same registry on the same logs and answers.
  They do not where the plain completion watcher panics and the defensive one returns:
  with a record for address 5, a completion log for 5 on which
  \<^verbatim>\<open>GenerateTransactOptions\<close> fails, and then a cancellation log for 5, the defensive
  variant logs the error, goes on and deletes the record; the plain variant calls
  \<^verbatim>\<open>SetSharedStateHash\<close> with the \<^verbatim>\<open>nil\<close> options and panics with the mutex held,
  the cancellation is never handled and the record is still there. (Without a panic of
  the plain variant the registries are the same:
  \<open>variants_same_registry_without_panic\<close>.)
\<close>

theorem c10_plain_panics_defensive_goes_on:
  "fst (process
     [(env_ok\<lparr>GenerateTransactOptions := (\<lambda>args. Inl ''account locked'')\<rparr>,
       CanPerformStateShare log0),
      (env_ok, FinishedExtension log0)] (Map.empty(5 \<mapsto> entry0))) 5 = None \<and>
   fst (process_plain
     [(env_ok\<lparr>GenerateTransactOptions := (\<lambda>args. Inl ''account locked'')\<rparr>,
       CanPerformStateShare log0),
      (env_ok, FinishedExtension log0)] (Map.empty(5 \<mapsto> entry0))) 5 = Some entry0 \<and>
   processed_plain
     [(env_ok\<lparr>GenerateTransactOptions := (\<lambda>args. Inl ''account locked'')\<rparr>,
       CanPerformStateShare log0),
      (env_ok, FinishedExtension log0)] (Map.empty(5 \<mapsto> entry0)) =
     [(env_ok\<lparr>GenerateTransactOptions := (\<lambda>args. Inl ''account locked'')\<rparr>,
       CanPerformStateShare log0)]"
proof -
  have p: "panicked (snd (watchForCompletionEvents_log_plain
      (env_ok\<lparr>GenerateTransactOptions := (\<lambda>args. Inl ''account locked'')\<rparr>) log0
      (Map.empty(5 \<mapsto> entry0))))"
    by (simp add: watchForCompletionEvents_log_plain_def ptr_def env_ok_def log0_def Let_def)
  show ?thesis
    by (simp add: p completion_keeps_registry completion_keeps_registry_plain
        completion_never_panics cancelled_registry split_def Let_def)
      (simp add: log0_def)
qed

subsection \<open>Creation and cancellation of one address\<close>

lemma handle_open:
  "(fst (handle env e cc) a \<noteq> None) =
     (if creates a (env, e) then True else if cancels a (env, e) then False else cc a \<noteq> None)"
  by (cases e)
    (auto simp: new_registry cancelled_registry completion_keeps_registry ptr_def
      split: sum.splits)

lemma handle_open_plain:
  "(fst (handle_plain env e cc) a \<noteq> None) =
     (if creates a (env, e) then True else if cancels a (env, e) then False else cc a \<noteq> None)"
  unfolding handle_same_registry by (rule handle_open)

text \<open>
  The registry follows the state machine of the specification, address by address, over
  the logs that were taken up.
\<close>

lemma process_open:
  "(fst (process steps cc) a \<noteq> None) = open_after a (cc a \<noteq> None) (processed steps cc)"
proof (induction steps arbitrary: cc)
  case Nil
  show ?case by simp
next
  case (Cons s steps)
  obtain env e where s: "s = (env, e)" by (cases s)
  show ?case
  proof (cases "panicked (snd (handle env e cc))")
    case True
    then show ?thesis
      using handle_open [of env e cc a] by (simp add: s split_def Let_def)
  next
    case False
    then show ?thesis
      using handle_open [of env e cc a] Cons.IH [of "fst (handle env e cc)"]
      by (simp add: s split_def Let_def)
  qed
qed

lemma process_open_plain:
  "(fst (process_plain steps cc) a \<noteq> None) =
     open_after a (cc a \<noteq> None) (processed_plain steps cc)"
proof (induction steps arbitrary: cc)
  case Nil
  show ?case by simp
next
  case (Cons s steps)
  obtain env e where s: "s = (env, e)" by (cases s)
  show ?case
  proof (cases "panicked (snd (handle_plain env e cc))")
    case True
    then show ?thesis
      using handle_open_plain [of env e cc a] by (simp add: s split_def Let_def)
  next
    case False
    then show ?thesis
      using handle_open_plain [of env e cc a] Cons.IH [of "fst (handle_plain env e cc)"]
      by (simp add: s split_def Let_def)
  qed
qed

text \<open>Without a panic every log of the sequence was taken up.\<close>

lemma processed_all:
  "\<not> panicked (snd (process steps cc)) \<Longrightarrow> processed steps cc = steps"
proof (induction steps arbitrary: cc)
  case Nil
  show ?case by simp
next
  case (Cons s steps)
  obtain env e where s: "s = (env, e)" by (cases s)
  have np: "\<not> panicked (snd (handle env e cc))"
    using Cons.prems by (auto simp: s split_def Let_def panicked_append split: if_splits)
  have rest: "\<not> panicked (snd (process steps (fst (handle env e cc))))"
    using Cons.prems np by (simp add: s split_def Let_def panicked_append)
  show ?case
    using Cons.IH [OF rest] np by (simp add: s split_def Let_def)
qed

lemma processed_all_plain:
  "\<not> panicked (snd (process_plain steps cc)) \<Longrightarrow> processed_plain steps cc = steps"
proof (induction steps arbitrary: cc)
  case Nil
  show ?case by simp
next
  case (Cons s steps)
  obtain env e where s: "s = (env, e)" by (cases s)
  have np: "\<not> panicked (snd (handle_plain env e cc))"
    using Cons.prems by (auto simp: s split_def Let_def panicked_append split: if_splits)
  have rest: "\<not> panicked (snd (process_plain steps (fst (handle_plain env e cc))))"
    using Cons.prems np by (simp add: s split_def Let_def panicked_append)
  show ?case
    using Cons.IH [OF rest] np by (simp add: s split_def Let_def)
qed

lemma split_at_head:
  "(\<exists>pre x post. s # rest = pre @ x # post \<and> P x post) =
     (P s rest \<or> (\<exists>pre x post. rest = pre @ x # post \<and> P x post))"
proof
  assume "\<exists>pre x post. s # rest = pre @ x # post \<and> P x post"
  then obtain pre x post where d: "s # rest = pre @ x # post" and p: "P x post"
    by blast
  show "P s rest \<or> (\<exists>pre x post. rest = pre @ x # post \<and> P x post)"
  proof (cases pre)
    case Nil
    with d p show ?thesis by simp
  next
    case (Cons y pre')
    with d have "rest = pre' @ x # post" by simp
    with p show ?thesis by blast
  qed
next
  assume "P s rest \<or> (\<exists>pre x post. rest = pre @ x # post \<and> P x post)"
  then show "\<exists>pre x post. s # rest = pre @ x # post \<and> P x post"
  proof
    assume "P s rest"
    then have "s # rest = [] @ s # rest \<and> P s rest" by simp
    then show ?thesis by blast
  next
    assume "\<exists>pre x post. rest = pre @ x # post \<and> P x post"
    then obtain pre x post where "rest = pre @ x # post" and "P x post" by blast
    then have "s # rest = (s # pre) @ x # post \<and> P x post" by simp
    then show ?thesis by blast
  qed
qed

text \<open>
  Open after a run: a creation that decoded with no cancellation after it, or open
  before the run and never cancelled in it.
\<close>

lemma open_after_iff:
  "open_after a b steps =
     ((\<exists>pre s post. steps = pre @ s # post \<and> creates a s \<and> (\<forall>s' \<in> set post. \<not> cancels a s'))
      \<or> (b \<and> (\<forall>s' \<in> set steps. \<not> cancels a s')))"
proof (induction steps arbitrary: b)
  case Nil
  show ?case by simp
next
  case (Cons s steps)
  show ?case
    unfolding open_after.simps Cons.IH
      split_at_head [where P = "\<lambda>s post. creates a s \<and> (\<forall>s' \<in> set post. \<not> cancels a s')"]
    by auto
qed

text \<open>
  C1. Starting from a registry with no record for address \<open>a\<close>, after any sequence of
  creation, cancellation and completion logs the registry has a record for \<open>a\<close> if and
  only if, among the logs that were taken up (all of them, unless a handler panicked),
  some creation log for \<open>a\<close> whose payload was decoded was handled and no cancellation
  log for \<open>a\<close> was handled after it. Both variants.
\<close>

theorem c1_record_iff_created_and_not_cancelled:
  assumes "cc a = None"
  shows "(fst (process steps cc) a \<noteq> None) =
           (\<exists>pre s post. processed steps cc = pre @ s # post \<and> creates a s \<and>
              (\<forall>s' \<in> set post. \<not> cancels a s')) \<and>
         (fst (process_plain steps cc) a \<noteq> None) =
           (\<exists>pre s post. processed_plain steps cc = pre @ s # post \<and> creates a s \<and>
              (\<forall>s' \<in> set post. \<not> cancels a s'))"
  unfolding process_open process_open_plain open_after_iff using assms by simp

theorem c1_record_iff_created_and_not_cancelled_witness:
  "Map.empty (5::nat) = (None :: ExtensionContract option) \<and>
   processed [(env_ok, NewExtension log0), (env_ok, FinishedExtension log0),
              (env_ok, CanPerformStateShare log0), (env_ok, NewExtension log0)] Map.empty =
     [(env_ok, NewExtension log0), (env_ok, FinishedExtension log0),
      (env_ok, CanPerformStateShare log0), (env_ok, NewExtension log0)] \<and>
   fst (process [(env_ok, NewExtension log0), (env_ok, FinishedExtension log0),
                 (env_ok, CanPerformStateShare log0), (env_ok, NewExtension log0)]
          Map.empty) 5 \<noteq> None \<and>
   fst (process_plain [(env_ok, NewExtension log0), (env_ok, FinishedExtension log0),
                 (env_ok, CanPerformStateShare log0), (env_ok, NewExtension log0)]
          Map.empty) 5 \<noteq> None"
proof -
  have h: "Map.empty (5::nat) = (None :: ExtensionContract option)" by simp
  have n: "\<not> panicked (snd (watchForNewContracts_log env_ok log0 cc))" for cc
    by (simp add: watchForNewContracts_log_def ptr_def env_ok_def Let_def)
  have pr: "processed [(env_ok, NewExtension log0), (env_ok, FinishedExtension log0),
              (env_ok, CanPerformStateShare log0), (env_ok, NewExtension log0)] Map.empty =
     [(env_ok, NewExtension log0), (env_ok, FinishedExtension log0),
      (env_ok, CanPerformStateShare log0), (env_ok, NewExtension log0)]"
    by (simp add: n cancelled_never_panics completion_never_panics split_def Let_def)
  have d: "[(env_ok, NewExtension log0), (env_ok, FinishedExtension log0),
            (env_ok, CanPerformStateShare log0), (env_ok, NewExtension log0)] =
           [(env_ok, NewExtension log0), (env_ok, FinishedExtension log0),
            (env_ok, CanPerformStateShare log0)] @ (env_ok, NewExtension log0) # [] \<and>
           creates 5 (env_ok, NewExtension log0) \<and>
           (\<forall>s' \<in> set []. \<not> cancels 5 s')"
    by (simp add: env_ok_def log0_def ptr_def)
  then have e: "\<exists>pre s post.
           processed [(env_ok, NewExtension log0), (env_ok, FinishedExtension log0),
            (env_ok, CanPerformStateShare log0), (env_ok, NewExtension log0)] Map.empty =
           pre @ s # post \<and> creates 5 s \<and> (\<forall>s' \<in> set post. \<not> cancels 5 s')"
    unfolding pr by blast
  have r: "fst (process [(env_ok, NewExtension log0), (env_ok, FinishedExtension log0),
                 (env_ok, CanPerformStateShare log0), (env_ok, NewExtension log0)]
          Map.empty) 5 \<noteq> None"
    using e c1_record_iff_created_and_not_cancelled [OF h,
      of "[(env_ok, NewExtension log0), (env_ok, FinishedExtension log0),
           (env_ok, CanPerformStateShare log0), (env_ok, NewExtension log0)]"]
    by blast
  have n': "\<not> panicked (snd (watchForNewContracts_log_plain env_ok log0 cc))" for cc
    by (simp add: watchForNewContracts_log_plain_def ptr_def env_ok_def Let_def)
  have c': "\<not> panicked (snd (watchForCompletionEvents_log_plain env_ok log0 cc))" for cc
    by (simp add: watchForCompletionEvents_log_plain_def ptr_def env_ok_def Let_def
        split: option.splits)
  have pr': "processed_plain [(env_ok, NewExtension log0), (env_ok, FinishedExtension log0),
              (env_ok, CanPerformStateShare log0), (env_ok, NewExtension log0)] Map.empty =
     [(env_ok, NewExtension log0), (env_ok, FinishedExtension log0),
      (env_ok, CanPerformStateShare log0), (env_ok, NewExtension log0)]"
    by (simp add: n' c' cancelled_never_panics split_def Let_def)
  from d have e': "\<exists>pre s post.
           processed_plain [(env_ok, NewExtension log0), (env_ok, FinishedExtension log0),
            (env_ok, CanPerformStateShare log0), (env_ok, NewExtension log0)] Map.empty =
           pre @ s # post \<and> creates 5 s \<and> (\<forall>s' \<in> set post. \<not> cancels 5 s')"
    unfolding pr' by blast
  have r': "fst (process_plain [(env_ok, NewExtension log0), (env_ok, FinishedExtension log0),
                 (env_ok, CanPerformStateShare log0), (env_ok, NewExtension log0)]
          Map.empty) 5 \<noteq> None"
    using e' c1_record_iff_created_and_not_cancelled [OF h,
      of "[(env_ok, NewExtension log0), (env_ok, FinishedExtension log0),
           (env_ok, CanPerformStateShare log0), (env_ok, NewExtension log0)]"]
    by blast
  show ?thesis
    using h pr r r' by (intro conjI)
qed

subsection \<open>Failures inside the state share\<close>

text \<open>
  The plain variant stops at a missing account and at a failed participant lookup only.
  Where \<^verbatim>\<open>Caller\<close>, \<^verbatim>\<open>GenerateTransactOptions\<close> and \<^verbatim>\<open>Transactor\<close> return
  their objects it makes the calls of every step, whatever failed: the errors of
  \<^verbatim>\<open>Creator\<close>, \<^verbatim>\<open>TargetRecipientPublicKeyHash\<close>, the base64 decoding,
  \<^verbatim>\<open>Receive\<close>, \<^verbatim>\<open>ContractToExtend\<close>, \<^verbatim>\<open>GetAddressStateFromBlock\<close>,
  \<^verbatim>\<open>Send\<close> and \<^verbatim>\<open>SetSharedStateHash\<close> are assigned to \<^verbatim>\<open>_\<close> or dropped.
\<close>

lemma completion_calls_plain:
  assumes "cc (LogAddress l) = Some e"
    and "Caller env (LogAddress l) = Inr caller"
    and "Exists env (fst (Creator env caller))"
    and "snd (GetParticipants env
                (BytesToEncryptedPayloadHash env (CreationData e))) = None"
    and "GenerateTransactOptions env
           \<lparr>From = fst (Creator env caller),
            PrivateFor = fst (GetParticipants env
              (BytesToEncryptedPayloadHash env (CreationData e)))\<rparr> = Inr txArgs"
    and "Transactor env (LogAddress l) = Inr transactor"
  shows "ext_calls (snd (watchForCompletionEvents_log_plain env l cc)) =
           somes (map fst (stateShare_steps env l e))"
  using assms
  unfolding watchForCompletionEvents_log_plain_def stateShare_steps_def Let_def split_def
  by (simp add: ptr_def)

text \<open>
  The loop of the defensive completion watcher goes on with what it receives next,
  wherever the handling of a log stopped; the loop of the plain one does unless the
  handling panicked, which ends it.
\<close>

lemma completion_loop_continues:
  "watchForCompletionEvents ((env, IncomingLog l) # rest) cc =
     (fst (watchForCompletionEvents rest cc),
      snd (watchForCompletionEvents_log env l cc) @ snd (watchForCompletionEvents rest cc))"
  using completion_keeps_registry [of env l cc] completion_never_panics [of env l cc]
  by (simp add: split_def Let_def)

lemma completion_loop_plain:
  "watchForCompletionEvents_plain ((env, IncomingLog l) # rest) cc =
     (if panicked (snd (watchForCompletionEvents_log_plain env l cc))
      then (cc, snd (watchForCompletionEvents_log_plain env l cc) @ [Unsubscribe])
      else (fst (watchForCompletionEvents_plain rest cc),
            snd (watchForCompletionEvents_log_plain env l cc) @
            snd (watchForCompletionEvents_plain rest cc)))"
  using completion_keeps_registry_plain [of env l cc]
  by (simp add: split_def Let_def)

text \<open>
  C3. A failure in a step of the state share is to end the handling of that one event,
  with none of the later calls made and the loop going on without a panic. The defensive
  variant does so (\<open>completion_calls\<close>, \<open>completion_never_panics\<close>,
  \<open>completion_loop_continues\<close>). The plain variant does not. On a log whose address
  has a record, with the account present and the participants fetched, a failing
  \<^verbatim>\<open>GenerateTransactOptions\<close> (step 4) is followed by the public key lookup, the state
  fetch, \<^verbatim>\<open>Send\<close> and \<^verbatim>\<open>Transactor\<close>, and then by the panic of
  \<^verbatim>\<open>SetSharedStateHash\<close> on the \<^verbatim>\<open>nil\<close> options, with the mutex held; a failing
  \<^verbatim>\<open>Receive\<close> (step 5) is followed by \<^verbatim>\<open>Send\<close> to the empty key and by
  \<^verbatim>\<open>SetSharedStateHash\<close>.
\<close>

theorem c3_plain_goes_on_after_failure:
  "GenerateTransactOptions
          (env_ok\<lparr>GenerateTransactOptions := (\<lambda>args. Inl ''account locked'')\<rparr>)
          \<lparr>From = 11, PrivateFor = [''partyA'', ''partyB'']\<rparr> = Inl ''account locked'' \<and>
   snd (watchForCompletionEvents_log_plain
       (env_ok\<lparr>GenerateTransactOptions := (\<lambda>args. Inl ''account locked'')\<rparr>)
       log0 (Map.empty(5 \<mapsto> entry0))) =
     [Lock, Ext (Facade_Caller 5), Ext (Caller_Creator 5), Ext (AccountManager_Exists 11),
      Ext (PTM_GetParticipants ''payload''),
      Ext (AccountManager_GenerateTransactOptions
             \<lparr>From = 11, PrivateFor = [''partyA'', ''partyB'']\<rparr>),
      Ext (Caller_TargetRecipientPublicKeyHash 5), Ext (PTM_Receive ''key''),
      Ext (Caller_ContractToExtend 5), Ext (StateFetcher_GetAddressStateFromBlock 8 7),
      Ext (PTM_Send ''state'' [] [''pubkey'']), Ext (Facade_Transactor 5), Panic] \<and>
   ext_calls (snd (watchForCompletionEvents_log
       (env_ok\<lparr>GenerateTransactOptions := (\<lambda>args. Inl ''account locked'')\<rparr>)
       log0 (Map.empty(5 \<mapsto> entry0)))) =
     [Facade_Caller 5, Caller_Creator 5, AccountManager_Exists 11,
      PTM_GetParticipants ''payload'',
      AccountManager_GenerateTransactOptions
        \<lparr>From = 11, PrivateFor = [''partyA'', ''partyB'']\<rparr>] \<and>
   snd (Receive (env_ok\<lparr>Receive := (\<lambda>b. ([], Some ''no such key''))\<rparr>) ''key'') \<noteq> None \<and>
   ext_calls (snd (watchForCompletionEvents_log_plain
       (env_ok\<lparr>Receive := (\<lambda>b. ([], Some ''no such key''))\<rparr>)
       log0 (Map.empty(5 \<mapsto> entry0)))) =
     [Facade_Caller 5, Caller_Creator 5, AccountManager_Exists 11,
      PTM_GetParticipants ''payload'',
      AccountManager_GenerateTransactOptions
        \<lparr>From = 11, PrivateFor = [''partyA'', ''partyB'']\<rparr>,
      Caller_TargetRecipientPublicKeyHash 5, PTM_Receive ''key'',
      Caller_ContractToExtend 5, StateFetcher_GetAddressStateFromBlock 8 7,
      PTM_Send ''state'' [] [[]], Facade_Transactor 5,
      Transactor_SetSharedStateHash 5 1 ''aGFzaA==''] \<and>
   ext_calls (snd (watchForCompletionEvents_log
       (env_ok\<lparr>Receive := (\<lambda>b. ([], Some ''no such key''))\<rparr>)
       log0 (Map.empty(5 \<mapsto> entry0)))) =
     [Facade_Caller 5, Caller_Creator 5, AccountManager_Exists 11,
      PTM_GetParticipants ''payload'',
      AccountManager_GenerateTransactOptions
        \<lparr>From = 11, PrivateFor = [''partyA'', ''partyB'']\<rparr>,
      Caller_TargetRecipientPublicKeyHash 5, PTM_Receive ''key'']"
proof -
  have r: "(Map.empty(5 \<mapsto> entry0)) (LogAddress log0) = Some entry0"
    by (simp add: log0_def)
  have g: "GenerateTransactOptions
          (env_ok\<lparr>GenerateTransactOptions := (\<lambda>args. Inl ''account locked'')\<rparr>)
          \<lparr>From = 11, PrivateFor = [''partyA'', ''partyB'']\<rparr> = Inl ''account locked''"
    by simp
  have p: "snd (watchForCompletionEvents_log_plain
       (env_ok\<lparr>GenerateTransactOptions := (\<lambda>args. Inl ''account locked'')\<rparr>)
       log0 (Map.empty(5 \<mapsto> entry0))) =
     [Lock, Ext (Facade_Caller 5), Ext (Caller_Creator 5), Ext (AccountManager_Exists 11),
      Ext (PTM_GetParticipants ''payload''),
      Ext (AccountManager_GenerateTransactOptions
             \<lparr>From = 11, PrivateFor = [''partyA'', ''partyB'']\<rparr>),
      Ext (Caller_TargetRecipientPublicKeyHash 5), Ext (PTM_Receive ''key''),
      Ext (Caller_ContractToExtend 5), Ext (StateFetcher_GetAddressStateFromBlock 8 7),
      Ext (PTM_Send ''state'' [] [''pubkey'']), Ext (Facade_Transactor 5), Panic]"
    by (simp add: watchForCompletionEvents_log_plain_def ptr_def env_ok_def log0_def
        entry0_def Let_def)
  have d: "ext_calls (snd (watchForCompletionEvents_log env log0 (Map.empty(5 \<mapsto> entry0)))) =
     somes (until_failure (stateShare_steps env log0 entry0))" for env
    by (rule completion_calls
          [where cc = "Map.empty(5 \<mapsto> entry0)" and l = log0 and e = entry0], rule r)
  have d1: "ext_calls (snd (watchForCompletionEvents_log
       (env_ok\<lparr>GenerateTransactOptions := (\<lambda>args. Inl ''account locked'')\<rparr>)
       log0 (Map.empty(5 \<mapsto> entry0)))) =
     [Facade_Caller 5, Caller_Creator 5, AccountManager_Exists 11,
      PTM_GetParticipants ''payload'',
      AccountManager_GenerateTransactOptions
        \<lparr>From = 11, PrivateFor = [''partyA'', ''partyB'']\<rparr>]"
    unfolding d by (simp add: stateShare_steps_def env_ok_def log0_def entry0_def)
  have k: "snd (Receive (env_ok\<lparr>Receive := (\<lambda>b. ([], Some ''no such key''))\<rparr>) ''key'') \<noteq> None"
    by simp
  have p2: "ext_calls (snd (watchForCompletionEvents_log_plain
       (env_ok\<lparr>Receive := (\<lambda>b. ([], Some ''no such key''))\<rparr>)
       log0 (Map.empty(5 \<mapsto> entry0)))) =
     [Facade_Caller 5, Caller_Creator 5, AccountManager_Exists 11,
      PTM_GetParticipants ''payload'',
      AccountManager_GenerateTransactOptions
        \<lparr>From = 11, PrivateFor = [''partyA'', ''partyB'']\<rparr>,
      Caller_TargetRecipientPublicKeyHash 5, PTM_Receive ''key'',
      Caller_ContractToExtend 5, StateFetcher_GetAddressStateFromBlock 8 7,
      PTM_Send ''state'' [] [[]], Facade_Transactor 5,
      Transactor_SetSharedStateHash 5 1 ''aGFzaA=='']"
    by (simp add: watchForCompletionEvents_log_plain_def ptr_def env_ok_def log0_def
        entry0_def Let_def)
  have d2: "ext_calls (snd (watchForCompletionEvents_log
       (env_ok\<lparr>Receive := (\<lambda>b. ([], Some ''no such key''))\<rparr>)
       log0 (Map.empty(5 \<mapsto> entry0)))) =
     [Facade_Caller 5, Caller_Creator 5, AccountManager_Exists 11,
      PTM_GetParticipants ''payload'',
      AccountManager_GenerateTransactOptions
        \<lparr>From = 11, PrivateFor = [''partyA'', ''partyB'']\<rparr>,
      Caller_TargetRecipientPublicKeyHash 5, PTM_Receive ''key'']"
    unfolding d by (simp add: stateShare_steps_def env_ok_def log0_def entry0_def)
  show ?thesis
    using g p d1 k p2 d2 by (intro conjI)
qed

end
